theory Spec2Isabelle
  imports Main "HOL-Library.Sublist"
begin

section \<open>Python values, exceptions and the world the manager acts on\<close>

text \<open>
  The lifecycle manager of \<^verbatim>\<open>lifecycle_manager_old.py\<close> passes Python dictionaries between
  its methods, reads and writes a directory tree and talks to a database session. The
  embedding keeps that shape: a datatype of Python values (dictionaries are association
  lists), a file system as a partial map from paths to nodes, and a session made of the
  durable tables and the tables as the open transaction sees them.

  \<open>PDumps v\<close> stands for the \<^verbatim>\<open>str\<close> that \<^verbatim>\<open>json.dumps(v)\<close> returns; the text itself is
  not modelled. In the same way a file holds either the JSON text of a value
  (\<open>Json_text v\<close>, what \<^verbatim>\<open>json.dump\<close> writes and \<^verbatim>\<open>json.load\<close> reads back as \<open>v\<close>) or
  some other text: the \<^verbatim>\<open>json\<close> library is taken to round-trip.
\<close>

datatype pyval =
    PNone
  | PBool bool
  | PInt int
  | PStr string
  | PList "pyval list"
  | PDict "(string \<times> pyval) list"
  | PDumps pyval

text \<open>
  Subscripting \<^verbatim>\<open>d[k]\<close>. The manager only subscripts its two static tables and the
  dictionaries its own methods build, with keys that are present on the path taken, so
  the \<^verbatim>\<open>KeyError\<close> of a missing key is not a branch of the model: a missing key reads as
  \<open>PNone\<close>.
\<close>

definition lookup :: "(string \<times> pyval) list \<Rightarrow> string \<Rightarrow> pyval" where
  "lookup kvs k = (case map_of kvs k of Some v \<Rightarrow> v | None \<Rightarrow> PNone)"

fun item :: "pyval \<Rightarrow> string \<Rightarrow> pyval" where
  "item (PDict kvs) k = lookup kvs k"
| "item _ k = PNone"

text \<open>Python truthiness, as \<^verbatim>\<open>if x:\<close> and \<^verbatim>\<open>not x\<close> use it.\<close>

fun truthy :: "pyval \<Rightarrow> bool" where
  "truthy PNone = False"
| "truthy (PBool b) = b"
| "truthy (PInt n) = (n \<noteq> 0)"
| "truthy (PStr s) = (s \<noteq> [])"
| "truthy (PList xs) = (xs \<noteq> [])"
| "truthy (PDict kvs) = (kvs \<noteq> [])"
| "truthy (PDumps v) = True"

text \<open>The text of a \<^verbatim>\<open>str\<close> value inside an f-string or a path; only applied to strings.\<close>

fun the_str :: "pyval \<Rightarrow> string" where
  "the_str (PStr s) = s"
| "the_str _ = []"

text \<open>
  Exceptions (subclasses of \<^verbatim>\<open>Exception\<close>) carry their class, as far as an
  \<^verbatim>\<open>except\<close> clause of the manager tells classes apart, and the text \<^verbatim>\<open>str(e)\<close>.
\<close>

datatype exn_class = JSONDecodeError | KeyError | OtherException

datatype exn = Exn exn_class string

fun class_of :: "exn \<Rightarrow> exn_class" where
  "class_of (Exn c m) = c"

fun str_exn :: "exn \<Rightarrow> string" where
  "str_exn (Exn c m) = m"

type_synonym path = "string list"

datatype content = Json_text pyval | Other_text string

datatype node = Dir | File content

type_synonym row = "(string \<times> pyval) list"

record db =
  plugin_table :: "row list"
  module_table :: "row list"

datatype log_entry = Info string | Error string

text \<open>
  The world. \<open>committed\<close> is the durable store; \<open>pending\<close> is the store as the caller's
  session sees it, with the statements of the open transaction applied. Every call the
  manager makes into the operating system or the database may raise: \<open>faults\<close> lists, for
  the calls still to come and in the order they are made, whether the call raises
  (and what). A call that raises has no other effect. Past the end of the list no call
  fails unless the state itself is in its way.

  One operation runs at a time on one session: what other sessions do to the store
  between two statements, and the cancellation of a coroutine (not an \<^verbatim>\<open>Exception\<close>), are
  outside the model.
\<close>

record world =
  fs :: "path \<Rightarrow> node option"
  committed :: db
  pending :: db
  faults :: "exn option list"
  logs :: "log_entry list"
  now_iso :: string
  now_sql :: string

record manager =
  plugins_base_dir :: path
  source_dir :: path

section \<open>Computations that may raise\<close>

type_synonym 'a io = "world \<Rightarrow> (exn + 'a) \<times> world"

definition return :: "'a \<Rightarrow> 'a io" where
  "return x = (\<lambda>w. (Inr x, w))"

definition raise :: "exn \<Rightarrow> 'a io" where
  "raise e = (\<lambda>w. (Inl e, w))"

definition bind :: "'a io \<Rightarrow> ('a \<Rightarrow> 'b io) \<Rightarrow> 'b io" where
  "bind m k = (\<lambda>w. case m w of (Inl e, w') \<Rightarrow> (Inl e, w') | (Inr x, w') \<Rightarrow> k x w')"

definition seq :: "'a io \<Rightarrow> 'b io \<Rightarrow> 'b io" where
  "seq m n = bind m (\<lambda>_. n)"

text \<open>\<^verbatim>\<open>try: m  except Exception as e: h e\<close>\<close>

definition try_except :: "'a io \<Rightarrow> (exn \<Rightarrow> 'a io) \<Rightarrow> 'a io" where
  "try_except m h = (\<lambda>w. case m w of (Inl e, w') \<Rightarrow> h e w' | (Inr x, w') \<Rightarrow> (Inr x, w'))"

text \<open>\<^verbatim>\<open>try: m  except (C1, C2) as e: h e\<close>: other classes pass through.\<close>

definition try_except_only :: "exn_class list \<Rightarrow> 'a io \<Rightarrow> (exn \<Rightarrow> 'a io) \<Rightarrow> 'a io" where
  "try_except_only cs m h =
     (\<lambda>w. case m w of
        (Inl e, w') \<Rightarrow> if class_of e \<in> set cs then h e w' else (Inl e, w')
      | (Inr x, w') \<Rightarrow> (Inr x, w'))"

definition next_fault :: "world \<Rightarrow> exn option" where
  "next_fault w = (case faults w of [] \<Rightarrow> None | x # xs \<Rightarrow> x)"

definition skip_fault :: "world \<Rightarrow> world" where
  "skip_fault w = w\<lparr>faults := tl (faults w)\<rparr>"

text \<open>A call that leaves the program: it raises when the environment says so.\<close>

definition external :: "'a io \<Rightarrow> 'a io" where
  "external op = (\<lambda>w. case next_fault w of
       Some e \<Rightarrow> (Inl e, skip_fault w)
     | None \<Rightarrow> op (skip_fault w))"

definition logger_info :: "string \<Rightarrow> unit io" where
  "logger_info msg = (\<lambda>w. (Inr (), w\<lparr>logs := logs w @ [Info msg]\<rparr>))"

definition logger_error :: "string \<Rightarrow> unit io" where
  "logger_error msg = (\<lambda>w. (Inr (), w\<lparr>logs := logs w @ [Error msg]\<rparr>))"

section \<open>The file system calls\<close>

text \<open>
  A path is its list of components below the root; the root is a directory. A user id
  is taken as one component of a path.
\<close>

definition is_dir :: "(path \<Rightarrow> node option) \<Rightarrow> path \<Rightarrow> bool" where
  "is_dir f p = (p = [] \<or> f p = Some Dir)"

definition is_file :: "(path \<Rightarrow> node option) \<Rightarrow> path \<Rightarrow> bool" where
  "is_file f p = (case f p of Some (File c) \<Rightarrow> p \<noteq> [] | _ \<Rightarrow> False)"

definition present :: "(path \<Rightarrow> node option) \<Rightarrow> path \<Rightarrow> bool" where
  "present f p = (p = [] \<or> f p \<noteq> None)"

definition str_path :: "path \<Rightarrow> string" where
  "str_path p = concat (map (\<lambda>c. ''/'' @ c) p)"

text \<open>\<^verbatim>\<open>Path.exists()\<close>\<close>

definition path_exists :: "path \<Rightarrow> bool io" where
  "path_exists p = external (\<lambda>w. (Inr (present (fs w) p), w))"

text \<open>
  \<^verbatim>\<open>Path.mkdir(parents=..., exist_ok=True)\<close>: an existing directory is accepted, a file in
  the way is an error, a missing parent is created only with \<^verbatim>\<open>parents=True\<close>.
\<close>

definition mkdir :: "path \<Rightarrow> bool \<Rightarrow> unit io" where
  "mkdir p parents = external (\<lambda>w.
     if is_dir (fs w) p then (Inr (), w)
     else if is_file (fs w) p then (Inl (Exn OtherException ''FileExistsError''), w)
     else if parents then
       (if list_ex (is_file (fs w)) (prefixes p)
        then (Inl (Exn OtherException ''NotADirectoryError''), w)
        else (Inr (), w\<lparr>fs := (\<lambda>q. if q \<noteq> [] \<and> prefix q p then Some Dir else fs w q)\<rparr>))
     else if is_dir (fs w) (butlast p) then (Inr (), w\<lparr>fs := (fs w)(p \<mapsto> Dir)\<rparr>)
     else (Inl (Exn OtherException ''FileNotFoundError''), w))"

text \<open>\<^verbatim>\<open>shutil.copy2(src, dst)\<close>: into \<open>dst\<close> when that is a directory.\<close>

definition copy2 :: "path \<Rightarrow> path \<Rightarrow> unit io" where
  "copy2 src dst = external (\<lambda>w.
     case fs w src of
       Some (File c) \<Rightarrow>
         (let tgt = (if is_dir (fs w) dst then dst @ [last src] else dst) in
          if is_dir (fs w) tgt then (Inl (Exn OtherException ''IsADirectoryError''), w)
          else if \<not> is_dir (fs w) (butlast tgt)
          then (Inl (Exn OtherException ''FileNotFoundError''), w)
          else (Inr (), w\<lparr>fs := (fs w)(tgt \<mapsto> File c)\<rparr>))
     | Some Dir \<Rightarrow> (Inl (Exn OtherException ''IsADirectoryError''), w)
     | None \<Rightarrow> (Inl (Exn OtherException ''FileNotFoundError''), w))"

text \<open>
  \<^verbatim>\<open>shutil.copytree(src, dst, dirs_exist_ok=True)\<close>: the target directory and its parents
  are made, then every entry below \<open>src\<close> is copied to the same place below \<open>dst\<close>. A clash
  of kinds between an entry and what already stands at its target is left to \<open>faults\<close>.
\<close>

definition copytree :: "path \<Rightarrow> path \<Rightarrow> unit io" where
  "copytree src dst = external (\<lambda>w.
     if \<not> is_dir (fs w) src then (Inl (Exn OtherException ''NotADirectoryError''), w)
     else if list_ex (is_file (fs w)) (prefixes dst)
     then (Inl (Exn OtherException ''FileExistsError''), w)
     else (Inr (), w\<lparr>fs := (\<lambda>q.
        if prefix dst q \<and> q \<noteq> dst \<and> fs w (src @ drop (length dst) q) \<noteq> None
        then fs w (src @ drop (length dst) q)
        else if q \<noteq> [] \<and> prefix q dst then Some Dir
        else fs w q)\<rparr>))"

text \<open>\<^verbatim>\<open>shutil.rmtree(p)\<close>: the directory and everything below it.\<close>

definition rmtree :: "path \<Rightarrow> unit io" where
  "rmtree p = external (\<lambda>w.
     if p \<noteq> [] \<and> fs w p = Some Dir
     then (Inr (), w\<lparr>fs := (\<lambda>q. if prefix p q then None else fs w q)\<rparr>)
     else (Inl (Exn OtherException ''NotADirectoryError''), w))"

text \<open>\<^verbatim>\<open>with open(p, 'w') as f: json.dump(v, f, indent=2)\<close>\<close>

definition json_dump_file :: "path \<Rightarrow> pyval \<Rightarrow> unit io" where
  "json_dump_file p v = external (\<lambda>w.
     if is_dir (fs w) p then (Inl (Exn OtherException ''IsADirectoryError''), w)
     else if \<not> is_dir (fs w) (butlast p) then (Inl (Exn OtherException ''FileNotFoundError''), w)
     else (Inr (), w\<lparr>fs := (fs w)(p \<mapsto> File (Json_text v))\<rparr>))"

text \<open>\<^verbatim>\<open>with open(p, 'r') as f: json.load(f)\<close>\<close>

definition json_load_file :: "path \<Rightarrow> pyval io" where
  "json_load_file p = external (\<lambda>w.
     case fs w p of
       Some (File (Json_text v)) \<Rightarrow> (Inr v, w)
     | Some (File (Other_text s)) \<Rightarrow> (Inl (Exn JSONDecodeError ''Expecting value''), w)
     | Some Dir \<Rightarrow> (Inl (Exn OtherException ''IsADirectoryError''), w)
     | None \<Rightarrow> (Inl (Exn OtherException ''FileNotFoundError''), w))"

text \<open>\<^verbatim>\<open>metadata.get(k)\<close>: a method of dictionaries only.\<close>

fun dict_get :: "pyval \<Rightarrow> string \<Rightarrow> pyval io" where
  "dict_get (PDict kvs) k = return (lookup kvs k)"
| "dict_get _ k = raise (Exn OtherException ''AttributeError'')"

section \<open>The database session\<close>

text \<open>
  The six statements the manager sends, by name; each runs on the tables the open
  transaction sees. A comparison with SQL's \<open>=\<close> is true only between equal values that
  are not NULL. An inserted row has the statement's columns, each read from the parameter
  of the same name. The schema and its constraints are not part of the repository: a
  statement the database rejects is a fault of the call.
\<close>

datatype statement =
    Select_plugin | Insert_plugin | Insert_module
  | Delete_modules | Delete_plugin | Select_modules

record cursor =
  fetchall :: "row list"
  rowcount :: nat

definition fetchone :: "cursor \<Rightarrow> row option" where
  "fetchone c = (case fetchall c of [] \<Rightarrow> None | r # rs \<Rightarrow> Some r)"

definition sql_eq :: "pyval \<Rightarrow> pyval \<Rightarrow> bool" where
  "sql_eq a b = (a \<noteq> PNone \<and> b \<noteq> PNone \<and> a = b)"

definition columns :: "string list \<Rightarrow> (string \<times> pyval) list \<Rightarrow> row" where
  "columns cs r = map (\<lambda>c. (c, lookup r c)) cs"

definition plugin_columns :: "string list" where
  "plugin_columns =
     [''id'', ''name'', ''description'', ''version'', ''type'', ''enabled'', ''icon'',
      ''category'', ''status'', ''official'', ''author'', ''last_updated'', ''compatibility'',
      ''downloads'', ''scope'', ''bundle_method'', ''bundle_location'', ''is_local'',
      ''long_description'', ''config_fields'', ''messages'', ''dependencies'', ''created_at'',
      ''updated_at'', ''user_id'', ''plugin_slug'', ''source_type'', ''source_url'',
      ''update_check_url'', ''last_update_check'', ''update_available'', ''latest_version'',
      ''installation_type'', ''permissions'']"

definition module_columns :: "string list" where
  "module_columns =
     [''id'', ''plugin_id'', ''name'', ''display_name'', ''description'', ''icon'', ''category'',
      ''enabled'', ''priority'', ''props'', ''config_fields'', ''messages'',
      ''required_services'', ''dependencies'', ''layout'', ''tags'', ''created_at'',
      ''updated_at'', ''user_id'']"

definition plugin_matches :: "(string \<times> pyval) list \<Rightarrow> row \<Rightarrow> bool" where
  "plugin_matches ps r =
     (sql_eq (lookup r ''user_id'') (lookup ps ''user_id'') \<and>
      sql_eq (lookup r ''plugin_slug'') (lookup ps ''plugin_slug''))"

definition module_matches :: "(string \<times> pyval) list \<Rightarrow> row \<Rightarrow> bool" where
  "module_matches ps r =
     (sql_eq (lookup r ''plugin_id'') (lookup ps ''plugin_id'') \<and>
      sql_eq (lookup r ''user_id'') (lookup ps ''user_id''))"

definition plugin_owned :: "(string \<times> pyval) list \<Rightarrow> row \<Rightarrow> bool" where
  "plugin_owned ps r =
     (sql_eq (lookup r ''id'') (lookup ps ''plugin_id'') \<and>
      sql_eq (lookup r ''user_id'') (lookup ps ''user_id''))"

fun run_statement :: "statement \<Rightarrow> (string \<times> pyval) list \<Rightarrow> db \<Rightarrow> cursor \<times> db" where
  "run_statement Select_plugin ps d =
     (\<lparr>fetchall = map (columns [''id'', ''name'', ''version'', ''enabled'', ''created_at'',
                                 ''updated_at''])
                      (filter (plugin_matches ps) (plugin_table d)),
       rowcount = 0\<rparr>, d)"
| "run_statement Select_modules ps d =
     (\<lparr>fetchall = map (columns [''id'', ''name'', ''enabled''])
                      (filter (module_matches ps) (module_table d)),
       rowcount = 0\<rparr>, d)"
| "run_statement Insert_plugin ps d =
     (\<lparr>fetchall = [], rowcount = 1\<rparr>,
      d\<lparr>plugin_table := plugin_table d @ [columns plugin_columns ps]\<rparr>)"
| "run_statement Insert_module ps d =
     (\<lparr>fetchall = [], rowcount = 1\<rparr>,
      d\<lparr>module_table := module_table d @ [columns module_columns ps]\<rparr>)"
| "run_statement Delete_modules ps d =
     (\<lparr>fetchall = [], rowcount = length (filter (module_matches ps) (module_table d))\<rparr>,
      d\<lparr>module_table := filter (\<lambda>r. \<not> module_matches ps r) (module_table d)\<rparr>)"
| "run_statement Delete_plugin ps d =
     (\<lparr>fetchall = [], rowcount = length (filter (plugin_owned ps) (plugin_table d))\<rparr>,
      d\<lparr>plugin_table := filter (\<lambda>r. \<not> plugin_owned ps r) (plugin_table d)\<rparr>)"

text \<open>\<^verbatim>\<open>await db.execute(stmt, params)\<close>, \<^verbatim>\<open>await db.commit()\<close>, \<^verbatim>\<open>await db.rollback()\<close>\<close>

definition db_execute :: "statement \<Rightarrow> (string \<times> pyval) list \<Rightarrow> cursor io" where
  "db_execute stmt ps = external (\<lambda>w.
     case run_statement stmt ps (pending w) of (c, d) \<Rightarrow> (Inr c, w\<lparr>pending := d\<rparr>))"

definition db_commit :: "unit io" where
  "db_commit = external (\<lambda>w. (Inr (), w\<lparr>committed := pending w\<rparr>))"

definition db_rollback :: "unit io" where
  "db_rollback = external (\<lambda>w. (Inr (), w\<lparr>pending := committed w\<rparr>))"

section \<open>The static tables of the manager\<close>

definition PLUGIN_DATA :: pyval where
  "PLUGIN_DATA = PDict
     [(''name'', PStr ''BrainDriveNetwork''),
      (''description'',
         PStr ''Network status monitoring and connectivity checking for BrainDrive services''),
      (''version'', PStr ''1.0.6''),
      (''type'', PStr ''frontend''),
      (''icon'', PStr ''NetworkCheck''),
      (''category'', PStr ''monitoring''),
      (''official'', PBool False),
      (''author'', PStr ''DJJones66''),
      (''compatibility'', PStr ''1.0.0''),
      (''scope'', PStr ''BrainDriveNetwork''),
      (''bundle_method'', PStr ''webpack''),
      (''bundle_location'', PStr ''dist/remoteEntry.js''),
      (''is_local'', PBool False),
      (''long_description'',
         PStr ''Monitor network connectivity and status of BrainDrive services with real-time monitoring capabilities''),
      (''plugin_slug'', PStr ''BrainDriveNetwork''),
      (''source_type'', PStr ''github''),
      (''source_url'', PStr ''https://github.com/DJJones66/NetworkEyes''),
      (''update_check_url'',
         PStr ''https://api.github.com/repos/DJJones66/NetworkEyes/releases/latest''),
      (''last_update_check'', PNone),
      (''update_available'', PBool False),
      (''latest_version'', PNone),
      (''installation_type'', PStr ''remote''),
      (''permissions'', PList [PStr ''network.read'', PStr ''storage.read'', PStr ''storage.write''])]"

definition MODULE_DATA :: "pyval list" where
  "MODULE_DATA =
     [PDict
       [(''name'', PStr ''ComponentNetworkStatus''),
        (''display_name'', PStr ''Network Status Monitor''),
        (''description'', PStr ''Real-time network connectivity monitoring dashboard''),
        (''icon'', PStr ''NetworkCheck''),
        (''category'', PStr ''monitoring''),
        (''priority'', PInt 1),
        (''props'', PDict []),
        (''config_fields'', PDict
           [(''refresh_interval'', PDict
               [(''type'', PStr ''number''),
                (''description'', PStr ''Auto-refresh interval in seconds''),
                (''default'', PInt 30)]),
            (''show_detailed_stats'', PDict
               [(''type'', PStr ''boolean''),
                (''description'', PStr ''Show detailed network statistics''),
                (''default'', PBool True)])]),
        (''messages'', PDict []),
        (''required_services'', PDict
           [(''api'', PDict [(''methods'', PList [PStr ''get'']), (''version'', PStr ''1.0.0'')]),
            (''network'', PDict
               [(''methods'', PList [PStr ''check'', PStr ''monitor'']),
                (''version'', PStr ''1.0.0'')])]),
        (''dependencies'', PList []),
        (''layout'', PDict
           [(''minWidth'', PInt 3), (''minHeight'', PInt 2),
            (''defaultWidth'', PInt 4), (''defaultHeight'', PInt 3)]),
        (''tags'', PList
           [PStr ''monitoring'', PStr ''network'', PStr ''status'', PStr ''connectivity'',
            PStr ''eyes''])]]"

definition plugin_slug :: string where
  "plugin_slug = the_str (item PLUGIN_DATA ''plugin_slug'')"

text \<open>\<^verbatim>\<open>self.plugins_base_dir / user_id / self.PLUGIN_DATA['plugin_slug']\<close>\<close>

definition user_plugin_dir :: "manager \<Rightarrow> string \<Rightarrow> path" where
  "user_plugin_dir mgr user_id = plugins_base_dir mgr @ [user_id] @ [plugin_slug]"

section \<open>Small helpers of the f-strings\<close>

fun string_of_nat :: "nat \<Rightarrow> string" where
  "string_of_nat n =
     (if n < 10 then [char_of (48 + n)]
      else string_of_nat (n div 10) @ [char_of (48 + n mod 10)])"

fun join_with :: "string \<Rightarrow> string list \<Rightarrow> string" where
  "join_with sep [] = []"
| "join_with sep [x] = x"
| "join_with sep (x # y # ys) = x @ sep @ join_with sep (y # ys)"

definition datetime_now_iso :: "string io" where
  "datetime_now_iso = (\<lambda>w. (Inr (now_iso w), w))"

definition datetime_now_sql :: "string io" where
  "datetime_now_sql = (\<lambda>w. (Inr (now_sql w), w))"

section \<open>The helper methods\<close>

text \<open>\<^verbatim>\<open>_check_existing_plugin\<close> (lines 216-249)\<close>

definition check_existing_plugin :: "manager \<Rightarrow> string \<Rightarrow> pyval io" where
  "check_existing_plugin mgr user_id =
     try_except
       (bind (db_execute Select_plugin
                [(''user_id'', PStr user_id),
                 (''plugin_slug'', item PLUGIN_DATA ''plugin_slug'')]) (\<lambda>result.
          case fetchone result of
            Some plugin_row \<Rightarrow>
              return (PDict
                [(''exists'', PBool True),
                 (''plugin_id'', lookup plugin_row ''id''),
                 (''plugin_info'', PDict
                    [(''id'', lookup plugin_row ''id''),
                     (''name'', lookup plugin_row ''name''),
                     (''version'', lookup plugin_row ''version''),
                     (''enabled'', lookup plugin_row ''enabled''),
                     (''created_at'', lookup plugin_row ''created_at''),
                     (''updated_at'', lookup plugin_row ''updated_at'')])])
          | None \<Rightarrow> return (PDict [(''exists'', PBool False)])))
       (\<lambda>e. seq (logger_error (''Error checking existing plugin: '' @ str_exn e))
                (return (PDict [(''exists'', PBool False), (''error'', PStr (str_exn e))])))"

text \<open>\<^verbatim>\<open>_create_user_plugin_directory\<close> (lines 251-266)\<close>

definition create_user_plugin_directory :: "manager \<Rightarrow> string \<Rightarrow> path option io" where
  "create_user_plugin_directory mgr user_id =
     try_except
       (let user_dir = plugins_base_dir mgr @ [user_id];
            plugin_dir = user_dir @ [plugin_slug]
        in seq (mkdir plugin_dir True)
          (seq (mkdir (plugin_dir @ [''dist'']) False)
          (seq (mkdir (plugin_dir @ [''assets'']) False)
          (seq (logger_info (''Created plugin directory: '' @ str_path plugin_dir))
               (return (Some plugin_dir))))))
       (\<lambda>e. seq (logger_error (''Error creating user plugin directory: '' @ str_exn e))
                (return None))"

text \<open>\<^verbatim>\<open>_copy_plugin_files\<close> (lines 268-311), its two loops first.\<close>

fun copy_files :: "path \<Rightarrow> path \<Rightarrow> string list \<Rightarrow> string list \<Rightarrow> string list io" where
  "copy_files src_dir target_dir [] copied_files = return copied_files"
| "copy_files src_dir target_dir (file_path # rest) copied_files =
     (let source_file = src_dir @ [file_path];
          target_file = target_dir @ [file_path]
      in bind (path_exists source_file) (\<lambda>found.
           if found then
             seq (mkdir (butlast target_file) True)
            (seq (copy2 source_file target_file)
                 (copy_files src_dir target_dir rest (copied_files @ [file_path])))
           else copy_files src_dir target_dir rest copied_files))"

fun copy_dirs :: "path \<Rightarrow> path \<Rightarrow> bool \<Rightarrow> string list \<Rightarrow> string list \<Rightarrow> string list io" where
  "copy_dirs src_dir target_dir update [] copied_files = return copied_files"
| "copy_dirs src_dir target_dir update (dir_path # rest) copied_files =
     (let source_dir_path = src_dir @ [dir_path];
          target_dir_path = target_dir @ [dir_path]
      in bind (path_exists source_dir_path) (\<lambda>found.
           if found then
             bind (path_exists target_dir_path) (\<lambda>target_found.
               seq (if target_found \<and> update then rmtree target_dir_path else return ())
              (seq (copytree source_dir_path target_dir_path)
                   (copy_dirs src_dir target_dir update rest (copied_files @ [dir_path @ ''/'']))))
           else copy_dirs src_dir target_dir update rest copied_files))"

definition manifest :: "string \<Rightarrow> string \<Rightarrow> pyval" where
  "manifest user_id installed_at = PDict
     [(''plugin_data'', PLUGIN_DATA),
      (''module_data'', PList MODULE_DATA),
      (''installed_for_user'', PStr user_id),
      (''installed_at'', PStr installed_at)]"

definition copy_plugin_files :: "manager \<Rightarrow> string \<Rightarrow> path \<Rightarrow> bool \<Rightarrow> pyval io" where
  "copy_plugin_files mgr user_id target_dir update =
     try_except
       (let files_to_copy = [''package.json'', ''README.md''];
            dirs_to_copy = [''dist'', ''src'', ''public'']
        in bind (copy_files (source_dir mgr) target_dir files_to_copy []) (\<lambda>copied_files.
           bind (copy_dirs (source_dir mgr) target_dir update dirs_to_copy copied_files)
             (\<lambda>copied_files.
           let metadata_file = target_dir @ [''plugin_metadata.json''] in
           bind datetime_now_iso (\<lambda>installed_at.
           seq (json_dump_file metadata_file (manifest user_id installed_at))
             (let copied_files = copied_files @ [''plugin_metadata.json''] in
              seq (logger_info (''Copied '' @ string_of_nat (length copied_files)
                                @ '' files/directories to '' @ str_path target_dir))
                  (return (PDict [(''success'', PBool True),
                                  (''copied_files'', PList (map PStr copied_files))])))))))
       (\<lambda>e. seq (logger_error (''Error copying plugin files: '' @ str_exn e))
                (return (PDict [(''success'', PBool False), (''error'', PStr (str_exn e))])))"

text \<open>\<^verbatim>\<open>_create_database_records\<close> (lines 313-418), the loop over the module table first.\<close>

fun insert_modules ::
  "string \<Rightarrow> string \<Rightarrow> string \<Rightarrow> string \<Rightarrow> pyval list \<Rightarrow> pyval list \<Rightarrow> pyval list io" where
  "insert_modules user_id slug plugin_id current_time [] modules_created =
     return modules_created"
| "insert_modules user_id slug plugin_id current_time (module_data # rest) modules_created =
     (let module_id = user_id @ ''_'' @ slug @ ''_'' @ the_str (item module_data ''name'') in
      seq (db_execute Insert_module
             [(''id'', PStr module_id),
              (''plugin_id'', PStr plugin_id),
              (''name'', item module_data ''name''),
              (''display_name'', item module_data ''display_name''),
              (''description'', item module_data ''description''),
              (''icon'', item module_data ''icon''),
              (''category'', item module_data ''category''),
              (''enabled'', PBool True),
              (''priority'', item module_data ''priority''),
              (''props'', PDumps (item module_data ''props'')),
              (''config_fields'', PDumps (item module_data ''config_fields'')),
              (''messages'', PDumps (item module_data ''messages'')),
              (''required_services'', PDumps (item module_data ''required_services'')),
              (''dependencies'', PDumps (item module_data ''dependencies'')),
              (''layout'', PDumps (item module_data ''layout'')),
              (''tags'', PDumps (item module_data ''tags'')),
              (''created_at'', PStr current_time),
              (''updated_at'', PStr current_time),
              (''user_id'', PStr user_id)])
          (insert_modules user_id slug plugin_id current_time rest
             (modules_created @ [PStr module_id])))"

definition create_database_records :: "manager \<Rightarrow> string \<Rightarrow> pyval io" where
  "create_database_records mgr user_id =
     try_except
       (bind datetime_now_sql (\<lambda>current_time.
        let slug = the_str (item PLUGIN_DATA ''plugin_slug'');
            plugin_id = user_id @ ''_'' @ slug
        in seq (db_execute Insert_plugin
             [(''id'', PStr plugin_id),
              (''name'', item PLUGIN_DATA ''name''),
              (''description'', item PLUGIN_DATA ''description''),
              (''version'', item PLUGIN_DATA ''version''),
              (''type'', item PLUGIN_DATA ''type''),
              (''enabled'', PBool True),
              (''icon'', item PLUGIN_DATA ''icon''),
              (''category'', item PLUGIN_DATA ''category''),
              (''status'', PStr ''activated''),
              (''official'', item PLUGIN_DATA ''official''),
              (''author'', item PLUGIN_DATA ''author''),
              (''last_updated'', PStr current_time),
              (''compatibility'', item PLUGIN_DATA ''compatibility''),
              (''downloads'', PInt 0),
              (''scope'', item PLUGIN_DATA ''scope''),
              (''bundle_method'', item PLUGIN_DATA ''bundle_method''),
              (''bundle_location'', item PLUGIN_DATA ''bundle_location''),
              (''is_local'', item PLUGIN_DATA ''is_local''),
              (''long_description'', item PLUGIN_DATA ''long_description''),
              (''config_fields'', PDumps (PDict [])),
              (''messages'', PNone),
              (''dependencies'', PNone),
              (''created_at'', PStr current_time),
              (''updated_at'', PStr current_time),
              (''user_id'', PStr user_id),
              (''plugin_slug'', PStr slug),
              (''source_type'', item PLUGIN_DATA ''source_type''),
              (''source_url'', item PLUGIN_DATA ''source_url''),
              (''update_check_url'', item PLUGIN_DATA ''update_check_url''),
              (''last_update_check'', item PLUGIN_DATA ''last_update_check''),
              (''update_available'', item PLUGIN_DATA ''update_available''),
              (''latest_version'', item PLUGIN_DATA ''latest_version''),
              (''installation_type'', item PLUGIN_DATA ''installation_type''),
              (''permissions'', PDumps (item PLUGIN_DATA ''permissions''))])
          (bind (insert_modules user_id slug plugin_id current_time MODULE_DATA [])
             (\<lambda>modules_created.
           seq (logger_info (''Created database records for plugin '' @ plugin_id @ '' with ''
                             @ string_of_nat (length modules_created) @ '' modules''))
               (return (PDict [(''success'', PBool True),
                               (''plugin_id'', PStr plugin_id),
                               (''modules_created'', PList modules_created)]))))))
       (\<lambda>e. seq (logger_error (''Error creating database records: '' @ str_exn e))
                (return (PDict [(''success'', PBool False), (''error'', PStr (str_exn e))])))"

text \<open>
  \<^verbatim>\<open>_delete_database_records\<close> (lines 420-453). The plugin id is whatever the existence
  check read from the row; the log line renders it when it is a string.
\<close>

definition delete_database_records :: "manager \<Rightarrow> string \<Rightarrow> pyval \<Rightarrow> pyval io" where
  "delete_database_records mgr user_id plugin_id =
     try_except
       (bind (db_execute Delete_modules
                [(''plugin_id'', plugin_id), (''user_id'', PStr user_id)]) (\<lambda>module_result.
        let deleted_modules = rowcount module_result in
        bind (db_execute Delete_plugin
                [(''plugin_id'', plugin_id), (''user_id'', PStr user_id)]) (\<lambda>plugin_result.
        if rowcount plugin_result = 0 then
          return (PDict [(''success'', PBool False),
                         (''error'', PStr ''Plugin not found or not owned by user'')])
        else
          seq (logger_info (''Deleted database records for plugin '' @ the_str plugin_id
                            @ '' ('' @ string_of_nat deleted_modules @ '' modules)''))
              (return (PDict [(''success'', PBool True),
                              (''deleted_modules'', PInt (int deleted_modules))])))))
       (\<lambda>e. seq (logger_error (''Error deleting database records: '' @ str_exn e))
                (return (PDict [(''success'', PBool False), (''error'', PStr (str_exn e))])))"

text \<open>
  \<^verbatim>\<open>_validate_installation\<close> (lines 455-492). The inner \<^verbatim>\<open>try\<close> either returns from the
  method (\<open>Some\<close> the returned dictionary) or falls through to the last \<^verbatim>\<open>return\<close>.
\<close>

fun missing_required :: "path \<Rightarrow> string list \<Rightarrow> string list \<Rightarrow> string list io" where
  "missing_required plugin_dir [] missing_files = return missing_files"
| "missing_required plugin_dir (file_path # rest) missing_files =
     bind (path_exists (plugin_dir @ [file_path])) (\<lambda>found.
       if \<not> found then missing_required plugin_dir rest (missing_files @ [file_path])
       else missing_required plugin_dir rest missing_files)"

definition validate_installation :: "manager \<Rightarrow> string \<Rightarrow> path \<Rightarrow> pyval io" where
  "validate_installation mgr user_id plugin_dir =
     try_except
       (let required_files = [''package.json'', ''plugin_metadata.json''] in
        bind (missing_required plugin_dir required_files []) (\<lambda>missing_files.
        if missing_files \<noteq> [] then
          return (PDict [(''valid'', PBool False),
                         (''error'', PStr (''Missing required files: ''
                                           @ join_with '', '' missing_files))])
        else
          let metadata_file = plugin_dir @ [''plugin_metadata.json''] in
          bind (try_except_only [JSONDecodeError, KeyError]
                  (bind (json_load_file metadata_file) (\<lambda>metadata.
                   bind (dict_get metadata ''installed_for_user'') (\<lambda>installed_for.
                   if installed_for \<noteq> PStr user_id then
                     return (Some (PDict [(''valid'', PBool False),
                                          (''error'', PStr ''Metadata file has incorrect user ID'')]))
                   else return None)))
                  (\<lambda>e. return (Some (PDict [(''valid'', PBool False),
                                             (''error'', PStr (''Invalid metadata file: ''
                                                               @ str_exn e))]))))
            (\<lambda>returned. case returned of
                Some r \<Rightarrow> return r
              | None \<Rightarrow> return (PDict [(''valid'', PBool True)]))))
       (\<lambda>e. seq (logger_error (''Error validating installation: '' @ str_exn e))
                (return (PDict [(''valid'', PBool False), (''error'', PStr (str_exn e))])))"

text \<open>\<^verbatim>\<open>_check_modules_status\<close> (lines 494-524)\<close>

definition check_modules_status :: "manager \<Rightarrow> string \<Rightarrow> pyval \<Rightarrow> pyval io" where
  "check_modules_status mgr user_id plugin_id =
     try_except
       (bind (db_execute Select_modules
                [(''plugin_id'', plugin_id), (''user_id'', PStr user_id)]) (\<lambda>result.
        let modules = fetchall result;
            expected_modules = length MODULE_DATA;
            actual_modules = length modules;
            enabled_modules = length (filter (\<lambda>m. truthy (lookup m ''enabled'')) modules)
        in return (PDict
             [(''expected_count'', PInt (int expected_modules)),
              (''actual_count'', PInt (int actual_modules)),
              (''enabled_count'', PInt (int enabled_modules)),
              (''all_loaded'', PBool (actual_modules = expected_modules)),
              (''all_enabled'', PBool (enabled_modules = actual_modules)),
              (''modules'', PList (map (\<lambda>m. PDict [(''id'', lookup m ''id''),
                                                     (''name'', lookup m ''name''),
                                                     (''enabled'', lookup m ''enabled'')])
                                       modules))])))
       (\<lambda>e. seq (logger_error (''Error checking modules status: '' @ str_exn e))
                (return (PDict [(''expected_count'', PInt 0), (''actual_count'', PInt 0),
                                (''enabled_count'', PInt 0), (''all_loaded'', PBool False)])))"

text \<open>\<^verbatim>\<open>_cleanup_user_directory\<close> (lines 526-534)\<close>

definition cleanup_user_directory :: "manager \<Rightarrow> path \<Rightarrow> unit io" where
  "cleanup_user_directory mgr plugin_dir =
     try_except
       (bind (path_exists plugin_dir) (\<lambda>found.
          if found then
            seq (rmtree plugin_dir)
                (logger_info (''Cleaned up plugin directory: '' @ str_path plugin_dir))
          else return ()))
       (\<lambda>e. logger_error (''Error cleaning up plugin directory: '' @ str_exn e))"

section \<open>The three operations\<close>

text \<open>
  \<^verbatim>\<open>install_plugin\<close> (lines 97-144). \<open>install_steps\<close> is the part of the \<^verbatim>\<open>try\<close> block after
  the existence check (lines 110-139).
\<close>

definition install_steps :: "manager \<Rightarrow> string \<Rightarrow> pyval io" where
  "install_steps mgr user_id =
     bind (create_user_plugin_directory mgr user_id) (\<lambda>created.
     case created of
       None \<Rightarrow> return (PDict [(''success'', PBool False),
                              (''error'', PStr ''Failed to create user plugin directory'')])
     | Some plugin_dir \<Rightarrow>
     bind (copy_plugin_files mgr user_id plugin_dir False) (\<lambda>copy_result.
     if \<not> truthy (item copy_result ''success'') then
       seq (cleanup_user_directory mgr plugin_dir) (return copy_result)
     else
     bind (create_database_records mgr user_id) (\<lambda>db_result.
     if \<not> truthy (item db_result ''success'') then
       seq (cleanup_user_directory mgr plugin_dir) (return db_result)
     else
     bind (validate_installation mgr user_id plugin_dir) (\<lambda>validation.
     if \<not> truthy (item validation ''valid'') then
       seq db_rollback
      (seq (cleanup_user_directory mgr plugin_dir)
           (return (PDict [(''success'', PBool False), (''error'', item validation ''error'')])))
     else
       seq db_commit
      (seq (logger_info (''NetworkEyes plugin installed successfully for user '' @ user_id))
           (return (PDict [(''success'', PBool True),
                           (''plugin_id'', item db_result ''plugin_id''),
                           (''plugin_slug'', item PLUGIN_DATA ''plugin_slug''),
                           (''modules_created'', item db_result ''modules_created''),
                           (''plugin_directory'', PStr (str_path plugin_dir))])))))))"

text \<open>The \<^verbatim>\<open>except\<close> block of \<^verbatim>\<open>install_plugin\<close> (lines 141-144).\<close>

definition install_failed :: "string \<Rightarrow> exn \<Rightarrow> pyval io" where
  "install_failed user_id e =
     seq (logger_error (''Plugin installation failed for user '' @ user_id @ '': '' @ str_exn e))
    (seq db_rollback
         (return (PDict [(''success'', PBool False), (''error'', PStr (str_exn e))])))"

definition install_plugin :: "manager \<Rightarrow> string \<Rightarrow> pyval io" where
  "install_plugin mgr user_id =
     try_except
       (seq (logger_info (''Installing NetworkEyes plugin for user '' @ user_id))
       (bind (check_existing_plugin mgr user_id) (\<lambda>existing_check.
        if truthy (item existing_check ''exists'') then
          return (PDict [(''success'', PBool False),
                         (''error'', PStr (''Plugin already installed for user '' @ user_id)),
                         (''plugin_id'', item existing_check ''plugin_id'')])
        else install_steps mgr user_id)))
       (install_failed user_id)"

text \<open>
  \<^verbatim>\<open>delete_plugin\<close> (lines 146-176). \<open>delete_steps\<close> is the part of the \<^verbatim>\<open>try\<close> block that
  runs with the plugin id the existence check found (lines 157-171).
\<close>

definition delete_steps :: "manager \<Rightarrow> string \<Rightarrow> pyval \<Rightarrow> pyval io" where
  "delete_steps mgr user_id plugin_id =
     bind (delete_database_records mgr user_id plugin_id) (\<lambda>delete_result.
     if \<not> truthy (item delete_result ''success'') then return delete_result
     else
       let plugin_dir = plugins_base_dir mgr @ [user_id] @ [plugin_slug] in
       seq (cleanup_user_directory mgr plugin_dir)
      (seq db_commit
      (seq (logger_info (''NetworkEyes plugin deleted successfully for user '' @ user_id))
           (return (PDict [(''success'', PBool True),
                           (''plugin_id'', plugin_id),
                           (''deleted_modules'', item delete_result ''deleted_modules'')])))))"

text \<open>The \<^verbatim>\<open>except\<close> block of \<^verbatim>\<open>delete_plugin\<close> (lines 173-176).\<close>

definition delete_failed :: "string \<Rightarrow> exn \<Rightarrow> pyval io" where
  "delete_failed user_id e =
     seq (logger_error (''Plugin deletion failed for user '' @ user_id @ '': '' @ str_exn e))
    (seq db_rollback
         (return (PDict [(''success'', PBool False), (''error'', PStr (str_exn e))])))"

definition delete_plugin :: "manager \<Rightarrow> string \<Rightarrow> pyval io" where
  "delete_plugin mgr user_id =
     try_except
       (seq (logger_info (''Deleting NetworkEyes plugin for user '' @ user_id))
       (bind (check_existing_plugin mgr user_id) (\<lambda>existing_check.
        if \<not> truthy (item existing_check ''exists'') then
          return (PDict [(''success'', PBool False),
                         (''error'', PStr ''Plugin not found for user'')])
        else
          let plugin_id = item existing_check ''plugin_id'' in
          delete_steps mgr user_id plugin_id)))
       (delete_failed user_id)"

text \<open>\<^verbatim>\<open>get_plugin_status\<close> (lines 178-211)\<close>

definition get_plugin_status :: "manager \<Rightarrow> string \<Rightarrow> pyval io" where
  "get_plugin_status mgr user_id =
     try_except
       (bind (check_existing_plugin mgr user_id) (\<lambda>existing_check.
        if \<not> truthy (item existing_check ''exists'') then
          return (PDict [(''exists'', PBool False), (''status'', PStr ''not_installed'')])
        else
          let plugin_id = item existing_check ''plugin_id'';
              plugin_dir = plugins_base_dir mgr @ [user_id] @ [plugin_slug]
          in
          bind (path_exists plugin_dir) (\<lambda>files_exist.
          bind (check_modules_status mgr user_id plugin_id) (\<lambda>modules_status.
          let status =
               (if files_exist \<and> truthy (item modules_status ''all_loaded'') then ''healthy''
                else if \<not> files_exist then ''files_missing''
                else if \<not> truthy (item modules_status ''all_loaded'') then ''modules_corrupted''
                else ''unknown'')
          in return (PDict
               [(''exists'', PBool True),
                (''status'', PStr status),
                (''plugin_id'', plugin_id),
                (''plugin_info'', item existing_check ''plugin_info''),
                (''files_exist'', PBool files_exist),
                (''modules_status'', modules_status),
                (''plugin_directory'', PStr (str_path plugin_dir))])))))
       (\<lambda>e. seq (logger_error (''Error checking plugin status for user '' @ user_id @ '': ''
                               @ str_exn e))
                (return (PDict [(''exists'', PBool False), (''status'', PStr ''error''),
                                (''error'', PStr (str_exn e))])))"

section \<open>Notions the properties are stated with\<close>

text \<open>
  The plugin rows a store holds for a user under this plugin's slug (what the existence
  check selects), and the module rows it holds for a user and a plugin id.
\<close>

definition plugin_rows :: "string \<Rightarrow> db \<Rightarrow> row list" where
  "plugin_rows user_id d =
     filter (\<lambda>r. sql_eq (lookup r ''user_id'') (PStr user_id) \<and>
                 sql_eq (lookup r ''plugin_slug'') (PStr plugin_slug)) (plugin_table d)"

definition module_rows :: "string \<Rightarrow> pyval \<Rightarrow> db \<Rightarrow> row list" where
  "module_rows user_id plugin_id d =
     filter (\<lambda>r. sql_eq (lookup r ''plugin_id'') plugin_id \<and>
                 sql_eq (lookup r ''user_id'') (PStr user_id)) (module_table d)"

definition owned_plugin_rows :: "string \<Rightarrow> pyval \<Rightarrow> db \<Rightarrow> row list" where
  "owned_plugin_rows user_id plugin_id d =
     filter (\<lambda>r. sql_eq (lookup r ''id'') plugin_id \<and>
                 sql_eq (lookup r ''user_id'') (PStr user_id)) (plugin_table d)"

text \<open>The next \<open>n\<close> calls that leave the program do not raise.\<close>

definition calls_succeed :: "nat \<Rightarrow> world \<Rightarrow> bool" where
  "calls_succeed n w = list_all (\<lambda>x. x = None) (take n (faults w))"

section \<open>A concrete installation\<close>

text \<open>
  A manager whose script lies in \<^verbatim>\<open>/srv/plugins/NetworkEyes\<close>, a file system holding the
  plugin's sources, and that world once user \<^verbatim>\<open>u1\<close> has the plugin installed. The
  properties below are instantiated on them.
\<close>

definition mgr0 :: manager where
  "mgr0 = \<lparr>plugins_base_dir = [''srv'', ''plugins''],
           source_dir = [''srv'', ''plugins'', ''NetworkEyes'']\<rparr>"

definition source_tree :: "(path \<times> node) list" where
  "source_tree =
     [([''srv''], Dir),
      ([''srv'', ''plugins''], Dir),
      ([''srv'', ''plugins'', ''NetworkEyes''], Dir),
      ([''srv'', ''plugins'', ''NetworkEyes'', ''package.json''],
         File (Json_text (PDict [(''name'', PStr ''network-eyes'')]))),
      ([''srv'', ''plugins'', ''NetworkEyes'', ''dist''], Dir),
      ([''srv'', ''plugins'', ''NetworkEyes'', ''dist'', ''remoteEntry.js''],
         File (Other_text ''bundle''))]"

definition empty_db :: db where
  "empty_db = \<lparr>plugin_table = [], module_table = []\<rparr>"

definition fresh0 :: world where
  "fresh0 = \<lparr>fs = map_of source_tree, committed = empty_db, pending = empty_db,
             faults = [], logs = [],
             now_iso = ''2024-05-01T12:00:00'', now_sql = ''2024-05-01 12:00:00''\<rparr>"

definition plugin_row0 :: row where
  "plugin_row0 =
     [(''id'', PStr ''u1_BrainDriveNetwork''),
      (''name'', PStr ''BrainDriveNetwork''),
      (''version'', PStr ''1.0.6''),
      (''enabled'', PBool True),
      (''created_at'', PStr ''2024-05-01 12:00:00''),
      (''updated_at'', PStr ''2024-05-01 12:00:00''),
      (''user_id'', PStr ''u1''),
      (''plugin_slug'', PStr ''BrainDriveNetwork'')]"

definition module_row0 :: row where
  "module_row0 =
     [(''id'', PStr ''u1_BrainDriveNetwork_ComponentNetworkStatus''),
      (''plugin_id'', PStr ''u1_BrainDriveNetwork''),
      (''name'', PStr ''ComponentNetworkStatus''),
      (''enabled'', PBool True),
      (''user_id'', PStr ''u1'')]"

definition installed_db :: db where
  "installed_db = \<lparr>plugin_table = [plugin_row0], module_table = [module_row0]\<rparr>"

definition installed_tree :: "(path \<times> node) list" where
  "installed_tree =
     [([''srv'', ''plugins'', ''u1''], Dir),
      ([''srv'', ''plugins'', ''u1'', ''BrainDriveNetwork''], Dir),
      ([''srv'', ''plugins'', ''u1'', ''BrainDriveNetwork'', ''package.json''],
         File (Json_text (PDict [(''name'', PStr ''network-eyes'')]))),
      ([''srv'', ''plugins'', ''u1'', ''BrainDriveNetwork'', ''plugin_metadata.json''],
         File (Json_text (manifest ''u1'' ''2024-05-01T12:00:00'')))]"

definition installed0 :: world where
  "installed0 = fresh0\<lparr>fs := map_of (installed_tree @ source_tree),
                        committed := installed_db, pending := installed_db\<rparr>"

text \<open>Worlds in which some calls fail, and a source directory without \<^verbatim>\<open>package.json\<close>.\<close>

definition no_space :: exn where
  "no_space = Exn OtherException ''No space left on device''"

definition permission_denied :: exn where
  "permission_denied = Exn OtherException ''Permission denied''"

definition connection_lost :: exn where
  "connection_lost = Exn OtherException ''connection lost''"

text \<open>
  The seventh call of an install on the fresh world is the \<^verbatim>\<open>copy2\<close> of
  \<^verbatim>\<open>package.json\<close>; the two calls of the cleanup follow it.
\<close>

definition copy_fails0 :: world where
  "copy_fails0 = fresh0\<lparr>faults := [None, None, None, None, None, None, Some no_space]\<rparr>"

definition copy_and_cleanup_fail0 :: world where
  "copy_and_cleanup_fail0 =
     fresh0\<lparr>faults := [None, None, None, None, None, None, Some no_space,
                          None, Some permission_denied]\<rparr>"

text \<open>The sixteenth call is the insert of the module row, after the plugin row.\<close>

definition insert_fails0 :: world where
  "insert_fails0 = fresh0\<lparr>faults := replicate 15 None @ [Some connection_lost]\<rparr>"

definition bare_source_tree :: "(path \<times> node) list" where
  "bare_source_tree =
     [([''srv''], Dir),
      ([''srv'', ''plugins''], Dir),
      ([''srv'', ''plugins'', ''NetworkEyes''], Dir),
      ([''srv'', ''plugins'', ''NetworkEyes'', ''dist''], Dir),
      ([''srv'', ''plugins'', ''NetworkEyes'', ''dist'', ''remoteEntry.js''],
         File (Other_text ''bundle''))]"

definition validate_fails0 :: world where
  "validate_fails0 = fresh0\<lparr>fs := map_of bare_source_tree\<rparr>"

text \<open>
  A delete for \<^verbatim>\<open>u1\<close> on the installed world, in three states. \<open>checked0\<close> is the world
  once the existence check has returned (the start is logged, the query is made).
  \<open>raced0\<close> is that world after a second connection has deleted the plugin row of \<^verbatim>\<open>u1\<close>
  and committed: the \<^verbatim>\<open>DELETE\<close> statements of the first session find the module row but
  no plugin row. In \<open>plugin_delete_raises0\<close> the third call of the delete, the \<^verbatim>\<open>DELETE\<close> on
  the plugin table, raises.
\<close>

definition checked0 :: world where
  "checked0 =
     skip_fault (installed0\<lparr>logs := logs installed0 @
                    [Info (''Deleting NetworkEyes plugin for user '' @ ''u1'')]\<rparr>)"

definition raced0 :: world where
  "raced0 = checked0\<lparr>committed := installed_db\<lparr>plugin_table := []\<rparr>,
                      pending := installed_db\<lparr>plugin_table := []\<rparr>\<rparr>"

definition plugin_delete_raises0 :: world where
  "plugin_delete_raises0 = installed0\<lparr>faults := [None, None, Some connection_lost]\<rparr>"

text \<open>The fresh world with a failing existence query.\<close>

definition check_fails0 :: world where
  "check_fails0 = fresh0\<lparr>faults := [Some connection_lost]\<rparr>"

text \<open>
  The installed world with a failing existence query, a failing directory probe, and a
  failing module query (the first, second and third call of a status check).
\<close>

definition query_fails0 :: world where
  "query_fails0 = installed0\<lparr>faults := [Some connection_lost]\<rparr>"

definition probe_fails0 :: world where
  "probe_fails0 = installed0\<lparr>faults := [None, Some permission_denied]\<rparr>"

definition module_query_fails0 :: world where
  "module_query_fails0 = installed0\<lparr>faults := [None, None, Some connection_lost]\<rparr>"

text \<open>The fresh world once the install of \<^verbatim>\<open>u1\<close> has made the plugin directory.\<close>

definition directory_made0 :: world where
  "directory_made0 = snd (create_user_plugin_directory mgr0 ''u1'' fresh0)"

section \<open>Notions of the proofs and of the install property\<close>

text \<open>A computation leaves a component of the world as it was.\<close>

definition keeps :: "(world \<Rightarrow> 'b) \<Rightarrow> 'a io \<Rightarrow> bool" where
  "keeps f m = (\<forall>w. f (snd (m w)) = f w)"

text \<open>
  The step at which an install started in \<open>w\<close> fails, with the world that step left behind:
  the run logs, passes the existence check, makes the directory, then copies, inserts and
  validates. \<open>None\<close> when the run stops before the copy or passes all three steps.
\<close>

datatype install_step = Copy_files | Insert_records | Validate_manifest

definition failing_step :: "manager \<Rightarrow> string \<Rightarrow> world \<Rightarrow> (install_step \<times> world) option" where
  "failing_step mgr user_id w =
     (case check_existing_plugin mgr user_id
             (snd (logger_info (''Installing NetworkEyes plugin for user '' @ user_id) w)) of
        (Inl e, w1) \<Rightarrow> None
      | (Inr existing_check, w1) \<Rightarrow>
     if truthy (item existing_check ''exists'') then None else
     (case create_user_plugin_directory mgr user_id w1 of
        (Inr (Some plugin_dir), w2) \<Rightarrow>
     (case copy_plugin_files mgr user_id plugin_dir False w2 of
        (Inl e, w3) \<Rightarrow> None
      | (Inr copy_result, w3) \<Rightarrow>
     if \<not> truthy (item copy_result ''success'') then Some (Copy_files, w3) else
     (case create_database_records mgr user_id w3 of
        (Inl e, w4) \<Rightarrow> None
      | (Inr db_result, w4) \<Rightarrow>
     if \<not> truthy (item db_result ''success'') then Some (Insert_records, w4) else
     (case validate_installation mgr user_id plugin_dir w4 of
        (Inl e, w5) \<Rightarrow> None
      | (Inr validation, w5) \<Rightarrow>
     if \<not> truthy (item validation ''valid'') then Some (Validate_manifest, w5) else None)))
      | _ \<Rightarrow> None))"

section \<open>Facts about the calls and the helper methods\<close>

lemma slug_item: "item PLUGIN_DATA ''plugin_slug'' = PStr ''BrainDriveNetwork''"
  by (simp add: PLUGIN_DATA_def lookup_def)

lemma plugin_slug_eq: "plugin_slug = ''BrainDriveNetwork''"
  by (simp add: plugin_slug_def slug_item)

lemma next_fault_logs [simp]: "next_fault (w\<lparr>logs := l\<rparr>) = next_fault w"
  by (simp add: next_fault_def)

lemma next_fault_simps [simp]:
  "next_fault (w\<lparr>fs := f\<rparr>) = next_fault w"
  "next_fault (w\<lparr>pending := d\<rparr>) = next_fault w"
  "next_fault (w\<lparr>committed := d\<rparr>) = next_fault w"
  by (simp_all add: next_fault_def)

lemma skip_fault_simps [simp]:
  "fs (skip_fault w) = fs w" "pending (skip_fault w) = pending w"
  "committed (skip_fault w) = committed w" "logs (skip_fault w) = logs w"
  "faults (skip_fault w) = tl (faults w)"
  by (simp_all add: skip_fault_def)

lemma external_None: "next_fault w = None \<Longrightarrow> external op w = op (skip_fault w)"
  by (simp add: external_def)

lemma external_Some: "next_fault w = Some e \<Longrightarrow> external op w = (Inl e, skip_fault w)"
  by (simp add: external_def)

lemmas io_defs = bind_def seq_def return_def raise_def try_except_def logger_info_def logger_error_def

lemma lookup_Nil [simp]: "lookup [] k = PNone"
  by (simp add: lookup_def)

lemma lookup_Cons [simp]: "lookup ((k', v) # kvs) k = (if k' = k then v else lookup kvs k)"
  by (simp add: lookup_def)

lemma calls_succeed_0 [simp]: "calls_succeed 0 w"
  by (simp add: calls_succeed_def)

lemma calls_succeed_Suc:
  "calls_succeed (Suc n) w = (next_fault w = None \<and> calls_succeed n (skip_fault w))"
  by (cases "faults w") (simp_all add: calls_succeed_def next_fault_def skip_fault_def)

lemma plugin_matches_params:
  "plugin_matches [(''user_id'', PStr user_id), (''plugin_slug'', item PLUGIN_DATA ''plugin_slug'')] =
   (\<lambda>r. sql_eq (lookup r ''user_id'') (PStr user_id) \<and>
        sql_eq (lookup r ''plugin_slug'') (PStr plugin_slug))"
  by (rule ext) (simp add: plugin_matches_def slug_item plugin_slug_eq)

lemma check_found:
  assumes "next_fault w = None" "plugin_rows user_id (pending w) = r # rs"
  shows "check_existing_plugin mgr user_id w =
     (Inr (PDict [(''exists'', PBool True), (''plugin_id'', lookup r ''id''),
        (''plugin_info'', PDict
                    [(''id'', lookup r ''id''),
                     (''name'', lookup r ''name''),
                     (''version'', lookup r ''version''),
                     (''enabled'', lookup r ''enabled''),
                     (''created_at'', lookup r ''created_at''),
                     (''updated_at'', lookup r ''updated_at'')])]), skip_fault w)"
  using assms
  by (simp add: check_existing_plugin_def io_defs db_execute_def external_None fetchone_def
      plugin_rows_def plugin_matches_params columns_def skip_fault_def)

lemma check_not_found:
  assumes "next_fault w = None" "plugin_rows user_id (pending w) = []"
  shows "check_existing_plugin mgr user_id w =
     (Inr (PDict [(''exists'', PBool False)]), skip_fault w)"
  using assms
  by (simp add: check_existing_plugin_def io_defs db_execute_def external_None fetchone_def
      plugin_rows_def plugin_matches_params columns_def skip_fault_def)

lemma check_raised:
  assumes "next_fault w = Some e"
  shows "check_existing_plugin mgr user_id w =
     (Inr (PDict [(''exists'', PBool False), (''error'', PStr (str_exn e))]),
      (skip_fault w)\<lparr>logs := logs w @ [Error (''Error checking existing plugin: '' @ str_exn e)]\<rparr>)"
  using assms
  by (simp add: check_existing_plugin_def io_defs db_execute_def external_Some skip_fault_def)

text \<open>
  Claim C2. When the existence check of \<open>install_plugin\<close> finds a plugin row of the user (the
  query returns and the session holds a row for the user and the slug), the install fails
  with the conflict error, which carries the id of the row found; the file system and both
  views of the store are as before: no directory is made, no row is inserted.
\<close>

theorem install_conflict:
  assumes "next_fault w = None" and "plugin_rows user_id (pending w) = r # rs"
  shows "\<exists>w'. install_plugin mgr user_id w =
           (Inr (PDict [(''success'', PBool False),
                        (''error'', PStr (''Plugin already installed for user '' @ user_id)),
                        (''plugin_id'', lookup r ''id'')]), w')
          \<and> fs w' = fs w \<and> pending w' = pending w \<and> committed w' = committed w"
proof -
  let ?w1 = "w\<lparr>logs := logs w @ [Info (''Installing NetworkEyes plugin for user '' @ user_id)]\<rparr>"
  have "next_fault ?w1 = None" "plugin_rows user_id (pending ?w1) = r # rs"
    using assms by simp_all
  from check_found[OF this, of mgr] show ?thesis
    by (simp add: install_plugin_def io_defs skip_fault_def)
qed

text \<open>
  Claim C6. When the session holds no plugin row for the user, \<open>delete_plugin\<close> fails with
  the not-found error, whether the existence query returns or raises; the file system and
  both views of the store are as before.
\<close>

theorem delete_not_found:
  assumes "plugin_rows user_id (pending w) = []"
  shows "\<exists>w'. delete_plugin mgr user_id w =
           (Inr (PDict [(''success'', PBool False),
                        (''error'', PStr ''Plugin not found for user'')]), w')
          \<and> fs w' = fs w \<and> pending w' = pending w \<and> committed w' = committed w"
proof -
  let ?w1 = "w\<lparr>logs := logs w @ [Info (''Deleting NetworkEyes plugin for user '' @ user_id)]\<rparr>"
  have rows: "plugin_rows user_id (pending ?w1) = []"
    using assms by simp
  show ?thesis
  proof (cases "next_fault w")
    case None
    then have "next_fault ?w1 = None" by simp
    from check_not_found[OF this rows, of mgr] show ?thesis
      by (simp add: delete_plugin_def io_defs skip_fault_def)
  next
    case (Some e)
    then have "next_fault ?w1 = Some e" by simp
    from check_raised[OF this, of mgr user_id] show ?thesis
      by (simp add: delete_plugin_def io_defs skip_fault_def)
  qed
qed

text \<open>
  Claim C10. When the query of the existence check raises, the check answers
  \<open>exists = False\<close> with the error text attached, and \<open>install_plugin\<close> goes on with the steps
  after the check (directory, files, records), in the world the check left: the fault is
  logged and otherwise ignored. Lemma \<open>install_not_installed\<close> below is the same
  continuation for a user with no row.
\<close>

theorem failed_check_proceeds:
  assumes "next_fault w = Some e"
  shows "fst (check_existing_plugin mgr user_id w) =
           Inr (PDict [(''exists'', PBool False), (''error'', PStr (str_exn e))])
       \<and> install_plugin mgr user_id w =
           try_except (install_steps mgr user_id) (install_failed user_id)
             (w\<lparr>faults := tl (faults w),
                logs := logs w @ [Info (''Installing NetworkEyes plugin for user '' @ user_id),
                                  Error (''Error checking existing plugin: '' @ str_exn e)]\<rparr>)"
proof -
  let ?w1 = "w\<lparr>logs := logs w @ [Info (''Installing NetworkEyes plugin for user '' @ user_id)]\<rparr>"
  have "next_fault ?w1 = Some e" using assms by simp
  from check_raised[OF this, of mgr user_id] check_raised[OF assms, of mgr user_id]
  show ?thesis
    by (simp add: install_plugin_def io_defs skip_fault_def)
qed

lemma install_not_installed:
  assumes "next_fault w = None" "plugin_rows user_id (pending w) = []"
  shows "install_plugin mgr user_id w =
           try_except (install_steps mgr user_id) (install_failed user_id)
             (skip_fault (w\<lparr>logs := logs w @ [Info (''Installing NetworkEyes plugin for user '' @ user_id)]\<rparr>))"
proof -
  let ?w1 = "w\<lparr>logs := logs w @ [Info (''Installing NetworkEyes plugin for user '' @ user_id)]\<rparr>"
  have "next_fault ?w1 = None" "plugin_rows user_id (pending ?w1) = []" using assms by simp_all
  from check_not_found[OF this, of mgr]
  show ?thesis
    by (simp add: install_plugin_def io_defs skip_fault_def)
qed

lemma logger_info_run: "logger_info m w = (Inr (), w\<lparr>logs := logs w @ [Info m]\<rparr>)"
  by (simp add: logger_info_def)

lemma path_exists_run:
  "path_exists p w = (case next_fault w of Some e \<Rightarrow> (Inl e, skip_fault w)
                      | None \<Rightarrow> (Inr (present (fs w) p), skip_fault w))"
  by (simp add: path_exists_def external_def split: option.splits)

lemma rmtree_run:
  "rmtree p w = (case next_fault w of Some e \<Rightarrow> (Inl e, skip_fault w)
                 | None \<Rightarrow> if p \<noteq> [] \<and> fs w p = Some Dir
                     then (Inr (), (skip_fault w)\<lparr>fs := (\<lambda>q. if prefix p q then None else fs w q)\<rparr>)
                     else (Inl (Exn OtherException ''NotADirectoryError''), skip_fault w))"
  by (simp add: rmtree_def external_def split: option.splits cong: if_cong)

text \<open>
  Claim C7. \<open>cleanup_user_directory\<close> never raises and leaves the store alone. When the path
  is absent it does nothing (only the probe was made). When the path is a directory and
  neither the probe nor the removal fails, the directory and everything below it are gone
  and nothing else is touched. When the probe or the removal raises, the file system is as
  before and the error is logged.
\<close>

theorem cleanup_swallows:
  "(\<exists>w'. cleanup_user_directory mgr d w = (Inr (), w')
         \<and> committed w' = committed w \<and> pending w' = pending w)
   \<and> (next_fault w = None \<and> \<not> present (fs w) d \<longrightarrow>
        snd (cleanup_user_directory mgr d w) = skip_fault w)
   \<and> (calls_succeed 2 w \<and> d \<noteq> [] \<and> fs w d = Some Dir \<longrightarrow>
        fs (snd (cleanup_user_directory mgr d w)) = (\<lambda>q. if prefix d q then None else fs w q))
   \<and> (\<forall>e. next_fault w = Some e
            \<or> (next_fault w = None \<and> present (fs w) d \<and> next_fault (skip_fault w) = Some e) \<longrightarrow>
        fs (snd (cleanup_user_directory mgr d w)) = fs w
        \<and> logs (snd (cleanup_user_directory mgr d w)) =
            logs w @ [Error (''Error cleaning up plugin directory: '' @ str_exn e)])"
  by (auto simp: cleanup_user_directory_def io_defs path_exists_run rmtree_run present_def
        numeral_2_eq_2 calls_succeed_Suc
        split: option.splits)


lemma module_matches_params:
  "module_matches [(''plugin_id'', pid), (''user_id'', PStr user_id)] =
   (\<lambda>r. sql_eq (lookup r ''plugin_id'') pid \<and> sql_eq (lookup r ''user_id'') (PStr user_id))"
  by (rule ext) (simp add: module_matches_def)

lemma plugin_owned_params:
  "plugin_owned [(''plugin_id'', pid), (''user_id'', PStr user_id)] =
   (\<lambda>r. sql_eq (lookup r ''id'') pid \<and> sql_eq (lookup r ''user_id'') (PStr user_id))"
  by (rule ext) (simp add: plugin_owned_def)

lemma modules_status_ok:
  assumes "next_fault w = None"
  shows "\<exists>st. check_modules_status mgr user_id pid w = (Inr st, skip_fault w)
      \<and> item st ''all_loaded'' =
          PBool (length (module_rows user_id pid (pending w)) = length MODULE_DATA)"
  using assms
  by (simp add: check_modules_status_def io_defs db_execute_def external_None
      module_rows_def module_matches_params skip_fault_def Let_def)

lemma modules_status_raised:
  assumes "next_fault w = Some e"
  shows "check_modules_status mgr user_id pid w =
      (Inr (PDict [(''expected_count'', PInt 0), (''actual_count'', PInt 0),
                   (''enabled_count'', PInt 0), (''all_loaded'', PBool False)]),
       (skip_fault w)\<lparr>logs := logs w @ [Error (''Error checking modules status: '' @ str_exn e)]\<rparr>)"
  using assms
  by (simp add: check_modules_status_def io_defs db_execute_def external_Some skip_fault_def)

text \<open>
  Claim C4. For an installed user (the existence check finds a row) whose directory probe
  and module query return, the status is \<open>healthy\<close> when the directory is present and the
  number of module rows equals the length of the static module list, \<open>files_missing\<close>
  whenever the directory is absent, \<open>modules_corrupted\<close> when the directory is present and
  the counts differ, and \<open>unknown\<close> otherwise.
\<close>

theorem status_classification:
  assumes "calls_succeed 3 w" and "plugin_rows user_id (pending w) = r # rs"
  shows "\<exists>st w'. get_plugin_status mgr user_id w = (Inr st, w') \<and>
     item st ''status'' = PStr
       (if present (fs w) (user_plugin_dir mgr user_id)
           \<and> length (module_rows user_id (lookup r ''id'') (pending w)) = length MODULE_DATA
        then ''healthy''
        else if \<not> present (fs w) (user_plugin_dir mgr user_id) then ''files_missing''
        else if length (module_rows user_id (lookup r ''id'') (pending w)) \<noteq> length MODULE_DATA
        then ''modules_corrupted''
        else ''unknown'')"
proof -
  from assms(1) have nf: "next_fault w = None" "next_fault (skip_fault w) = None"
    "next_fault (skip_fault (skip_fault w)) = None"
    by (simp_all add: numeral_3_eq_3 calls_succeed_Suc)
  from modules_status_ok[OF nf(3), of mgr user_id "lookup r ''id''"]
  obtain ms where ms: "check_modules_status mgr user_id (lookup r ''id'') (skip_fault (skip_fault w))
       = (Inr ms, skip_fault (skip_fault (skip_fault w)))"
     "item ms ''all_loaded'' =
          PBool (length (module_rows user_id (lookup r ''id'') (pending w)) = length MODULE_DATA)"
    by auto
  show ?thesis
    using nf ms
    by (simp add: get_plugin_status_def bind_def return_def try_except_def
        check_found[OF nf(1) assms(2)] path_exists_run user_plugin_dir_def Let_def)
qed


lemma installed0_fields [simp]:
  "faults installed0 = []" "pending installed0 = installed_db" "committed installed0 = installed_db"
  "logs installed0 = []" "fs installed0 = map_of (installed_tree @ source_tree)"
  by (simp_all add: installed0_def fresh0_def)

lemma fresh0_fields [simp]:
  "faults fresh0 = []" "pending fresh0 = empty_db" "committed fresh0 = empty_db"
  "logs fresh0 = []" "fs fresh0 = map_of source_tree"
  by (simp_all add: fresh0_def)

lemma plugin_rows_installed [simp]: "plugin_rows ''u1'' installed_db = [plugin_row0]"
  by (simp add: plugin_rows_def installed_db_def plugin_row0_def sql_eq_def plugin_slug_eq)

lemma plugin_rows_empty [simp]: "plugin_rows u empty_db = []"
  by (simp add: plugin_rows_def empty_db_def)

lemma module_rows_installed [simp]:
  "module_rows ''u1'' (PStr ''u1_BrainDriveNetwork'') installed_db = [module_row0]"
  by (simp add: module_rows_def installed_db_def module_row0_def sql_eq_def)

lemma next_fault_faults [simp]:
  "next_fault (w\<lparr>faults := x # xs\<rparr>) = x" "next_fault (w\<lparr>faults := []\<rparr>) = None"
  by (simp_all add: next_fault_def)

text \<open>The conflict on the installed world.\<close>

theorem install_conflict_witness:
  "next_fault installed0 = None \<and> plugin_rows ''u1'' (pending installed0) = [plugin_row0]
   \<and> (\<exists>w'. install_plugin mgr0 ''u1'' installed0 =
           (Inr (PDict [(''success'', PBool False),
                        (''error'', PStr ''Plugin already installed for user u1''),
                        (''plugin_id'', PStr ''u1_BrainDriveNetwork'')]), w')
          \<and> fs w' = fs installed0 \<and> pending w' = pending installed0
          \<and> committed w' = committed installed0)"
proof -
  have h1: "next_fault installed0 = None" by (simp add: next_fault_def)
  have h2: "plugin_rows ''u1'' (pending installed0) = [plugin_row0]" by simp
  from install_conflict[OF h1 h2, of mgr0] h1 h2 show ?thesis
    by (simp add: plugin_row0_def)
qed

text \<open>Deleting for a user of the fresh world.\<close>

theorem delete_not_found_witness:
  "plugin_rows ''u1'' (pending fresh0) = []
   \<and> (\<exists>w'. delete_plugin mgr0 ''u1'' fresh0 =
           (Inr (PDict [(''success'', PBool False),
                        (''error'', PStr ''Plugin not found for user'')]), w')
          \<and> fs w' = fs fresh0 \<and> pending w' = pending fresh0 \<and> committed w' = committed fresh0)"
proof -
  have h: "plugin_rows ''u1'' (pending fresh0) = []" by simp
  from delete_not_found[OF h, of mgr0] h show ?thesis by simp
qed

text \<open>The installed world is healthy.\<close>

theorem status_classification_witness:
  "calls_succeed 3 installed0 \<and> plugin_rows ''u1'' (pending installed0) = [plugin_row0]
   \<and> (\<exists>st w'. get_plugin_status mgr0 ''u1'' installed0 = (Inr st, w')
         \<and> item st ''status'' = PStr ''healthy'')"
proof -
  have h1: "calls_succeed 3 installed0" by (simp add: calls_succeed_def)
  have h2: "plugin_rows ''u1'' (pending installed0) = [plugin_row0]" by simp
  have id: "lookup plugin_row0 ''id'' = PStr ''u1_BrainDriveNetwork''"
    by (simp add: plugin_row0_def)
  have d: "present (fs installed0) (user_plugin_dir mgr0 ''u1'')"
    by (simp add: present_def user_plugin_dir_def mgr0_def plugin_slug_eq installed_tree_def)
  from status_classification[OF h1 h2, of mgr0] h1 h2 d show ?thesis
    by (simp add: id MODULE_DATA_def)
qed


lemma dir0: "user_plugin_dir mgr0 ''u1'' = [''srv'', ''plugins'', ''u1'', ''BrainDriveNetwork'']"
  by (simp add: user_plugin_dir_def mgr0_def plugin_slug_eq)

lemma world_sel_faults [simp]:
  "fs (w\<lparr>faults := x\<rparr>) = fs w" "pending (w\<lparr>faults := x\<rparr>) = pending w"
  "committed (w\<lparr>faults := x\<rparr>) = committed w" "logs (w\<lparr>faults := x\<rparr>) = logs w"
  by simp_all

text \<open>The three cases of the cleanup on the concrete worlds.\<close>

theorem cleanup_swallows_witness:
  "(\<exists>w'. cleanup_user_directory mgr0 (user_plugin_dir mgr0 ''u1'') installed0 = (Inr (), w')
         \<and> committed w' = committed installed0 \<and> pending w' = pending installed0)
   \<and> next_fault fresh0 = None \<and> \<not> present (fs fresh0) (user_plugin_dir mgr0 ''u1'')
   \<and> snd (cleanup_user_directory mgr0 (user_plugin_dir mgr0 ''u1'') fresh0) = skip_fault fresh0
   \<and> calls_succeed 2 installed0 \<and> user_plugin_dir mgr0 ''u1'' \<noteq> []
   \<and> fs installed0 (user_plugin_dir mgr0 ''u1'') = Some Dir
   \<and> fs (snd (cleanup_user_directory mgr0 (user_plugin_dir mgr0 ''u1'') installed0))
        = (\<lambda>q. if prefix (user_plugin_dir mgr0 ''u1'') q then None else fs installed0 q)
   \<and> next_fault (installed0\<lparr>faults := [None, Some (Exn OtherException ''Permission denied'')]\<rparr>) = None
   \<and> present (fs installed0) (user_plugin_dir mgr0 ''u1'')
   \<and> next_fault (skip_fault (installed0\<lparr>faults := [None, Some (Exn OtherException ''Permission denied'')]\<rparr>))
        = Some (Exn OtherException ''Permission denied'')
   \<and> fs (snd (cleanup_user_directory mgr0 (user_plugin_dir mgr0 ''u1'')
                (installed0\<lparr>faults := [None, Some (Exn OtherException ''Permission denied'')]\<rparr>)))
        = fs installed0
   \<and> logs (snd (cleanup_user_directory mgr0 (user_plugin_dir mgr0 ''u1'')
                (installed0\<lparr>faults := [None, Some (Exn OtherException ''Permission denied'')]\<rparr>)))
        = [Error ''Error cleaning up plugin directory: Permission denied'']"
proof -
  let ?d = "user_plugin_dir mgr0 ''u1''"
  let ?wf = "installed0\<lparr>faults := [None, Some (Exn OtherException ''Permission denied'')]\<rparr>"
  have a: "next_fault fresh0 = None" "\<not> present (fs fresh0) ?d"
    by (simp_all add: next_fault_def present_def dir0 source_tree_def)
  have b: "calls_succeed 2 installed0" "?d \<noteq> []" "fs installed0 ?d = Some Dir"
    by (simp_all add: calls_succeed_def dir0 installed_tree_def)
  have c: "next_fault ?wf = None" "present (fs installed0) ?d"
      "next_fault (skip_fault ?wf) = Some (Exn OtherException ''Permission denied'')"
    by (simp_all add: present_def dir0 installed_tree_def next_fault_def)
  from cleanup_swallows[of mgr0 ?d fresh0] a
  have 1: "snd (cleanup_user_directory mgr0 ?d fresh0) = skip_fault fresh0" by blast
  from cleanup_swallows[of mgr0 ?d installed0] b
  have 2: "(\<exists>w'. cleanup_user_directory mgr0 ?d installed0 = (Inr (), w')
         \<and> committed w' = committed installed0 \<and> pending w' = pending installed0)"
     "fs (snd (cleanup_user_directory mgr0 ?d installed0))
        = (\<lambda>q. if prefix ?d q then None else fs installed0 q)" by blast+
  from cleanup_swallows[of mgr0 ?d ?wf] c
  have 3: "fs (snd (cleanup_user_directory mgr0 ?d ?wf)) = fs ?wf
        \<and> logs (snd (cleanup_user_directory mgr0 ?d ?wf)) =
            logs ?wf @ [Error (''Error cleaning up plugin directory: ''
                @ str_exn (Exn OtherException ''Permission denied''))]"
    by simp
  from 3 have f3: "fs (snd (cleanup_user_directory mgr0 ?d ?wf)) = fs installed0"
      "logs (snd (cleanup_user_directory mgr0 ?d ?wf)) =
          [Error ''Error cleaning up plugin directory: Permission denied'']"
    by simp_all
  show ?thesis using a b c 1 2 f3 by blast
qed

text \<open>
  The failed check on the fresh world: the query raises, the install goes on, and with no
  further fault it succeeds: the directory is made and the rows are committed.
\<close>

theorem failed_check_proceeds_witness:
  "next_fault check_fails0 = Some connection_lost
   \<and> fst (check_existing_plugin mgr0 ''u1'' check_fails0) =
           Inr (PDict [(''exists'', PBool False), (''error'', PStr ''connection lost'')])
   \<and> install_plugin mgr0 ''u1'' check_fails0 =
       try_except (install_steps mgr0 ''u1'') (install_failed ''u1'')
         (check_fails0\<lparr>faults := tl (faults check_fails0),
                 logs := logs check_fails0 @
                         [Info (''Installing NetworkEyes plugin for user '' @ ''u1''),
                          Error (''Error checking existing plugin: ''
                                 @ str_exn connection_lost)]\<rparr>)
   \<and> fst (install_plugin mgr0 ''u1'' check_fails0) =
       Inr (PDict [(''success'', PBool True),
                   (''plugin_id'', PStr ''u1_BrainDriveNetwork''),
                   (''plugin_slug'', PStr ''BrainDriveNetwork''),
                   (''modules_created'',
                      PList [PStr ''u1_BrainDriveNetwork_ComponentNetworkStatus'']),
                   (''plugin_directory'', PStr ''/srv/plugins/u1/BrainDriveNetwork'')])
   \<and> fs (snd (install_plugin mgr0 ''u1'' check_fails0)) (user_plugin_dir mgr0 ''u1'') = Some Dir
   \<and> length (plugin_rows ''u1'' (committed (snd (install_plugin mgr0 ''u1'' check_fails0)))) = 1"
proof -
  have h: "next_fault check_fails0 = Some connection_lost"
    by (simp add: check_fails0_def)
  have e: "str_exn connection_lost = ''connection lost''"
    by (simp add: connection_lost_def)
  have run: "fst (install_plugin mgr0 ''u1'' check_fails0) =
       Inr (PDict [(''success'', PBool True),
                   (''plugin_id'', PStr ''u1_BrainDriveNetwork''),
                   (''plugin_slug'', PStr ''BrainDriveNetwork''),
                   (''modules_created'',
                      PList [PStr ''u1_BrainDriveNetwork_ComponentNetworkStatus'']),
                   (''plugin_directory'', PStr ''/srv/plugins/u1/BrainDriveNetwork'')])"
    "fs (snd (install_plugin mgr0 ''u1'' check_fails0)) (user_plugin_dir mgr0 ''u1'') = Some Dir"
    "length (plugin_rows ''u1'' (committed (snd (install_plugin mgr0 ''u1'' check_fails0)))) = 1"
    by code_simp+
  from failed_check_proceeds[OF h, of mgr0 "''u1''"] h e run show ?thesis by simp
qed

section \<open>What the helper methods leave untouched\<close>


lemma keepsI: "(\<And>w. f (snd (m w)) = f w) \<Longrightarrow> keeps f m"
  by (simp add: keeps_def)

lemma keepsD: "keeps f m \<Longrightarrow> m w = (r, w') \<Longrightarrow> f w' = f w"
  by (auto simp: keeps_def dest: spec[of _ w])

lemma keeps_return [intro!]: "keeps f (return x)"
  by (simp add: keeps_def return_def)

lemma keeps_raise [intro!]: "keeps f (raise e)"
  by (simp add: keeps_def raise_def)

lemma keeps_bind [intro!]:
  assumes "keeps f m" "\<And>x. keeps f (k x)"
  shows "keeps f (bind m k)"
proof (rule keepsI)
  fix w
  obtain r w1 where m: "m w = (r, w1)" by (cases "m w")
  from keepsD[OF assms(1) m] have 1: "f w1 = f w" .
  show "f (snd (bind m k w)) = f w"
  proof (cases r)
    case (Inl e)
    with m 1 show ?thesis by (simp add: bind_def)
  next
    case (Inr x)
    obtain r2 w2 where k: "k x w1 = (r2, w2)" by (cases "k x w1")
    from keepsD[OF assms(2) k] have "f w2 = f w1" .
    with m 1 Inr k show ?thesis by (simp add: bind_def)
  qed
qed

lemma keeps_seq [intro!]: "keeps f m \<Longrightarrow> keeps f n \<Longrightarrow> keeps f (seq m n)"
  by (simp add: seq_def keeps_bind)

lemma keeps_try_except [intro!]:
  assumes "keeps f m" "\<And>e. keeps f (h e)"
  shows "keeps f (try_except m h)"
proof (rule keepsI)
  fix w
  obtain r w1 where m: "m w = (r, w1)" by (cases "m w")
  from keepsD[OF assms(1) m] have 1: "f w1 = f w" .
  show "f (snd (try_except m h w)) = f w"
  proof (cases r)
    case (Inr x)
    with m 1 show ?thesis by (simp add: try_except_def)
  next
    case (Inl e)
    obtain r2 w2 where k: "h e w1 = (r2, w2)" by (cases "h e w1")
    from keepsD[OF assms(2) k] have "f w2 = f w1" .
    with m 1 Inl k show ?thesis by (simp add: try_except_def)
  qed
qed

lemma keeps_try_except_only [intro!]:
  assumes "keeps f m" "\<And>e. keeps f (h e)"
  shows "keeps f (try_except_only cs m h)"
proof (rule keepsI)
  fix w
  obtain r w1 where m: "m w = (r, w1)" by (cases "m w")
  from keepsD[OF assms(1) m] have 1: "f w1 = f w" .
  show "f (snd (try_except_only cs m h w)) = f w"
  proof (cases r)
    case (Inr x)
    with m 1 show ?thesis by (simp add: try_except_only_def)
  next
    case (Inl e)
    obtain r2 w2 where k: "h e w1 = (r2, w2)" by (cases "h e w1")
    from keepsD[OF assms(2) k] have "f w2 = f w1" .
    with m 1 Inl k show ?thesis by (simp add: try_except_only_def)
  qed
qed

lemma keeps_if [intro!]: "keeps f m \<Longrightarrow> keeps f n \<Longrightarrow> keeps f (if b then m else n)"
  by simp

lemma keeps_external:
  assumes "\<And>w. f (skip_fault w) = f w" "keeps f op"
  shows "keeps f (external op)"
proof (rule keepsI)
  fix w
  show "f (snd (external op w)) = f w"
  proof (cases "next_fault w")
    case None
    obtain r w1 where m: "op (skip_fault w) = (r, w1)" by (cases "op (skip_fault w)")
    from keepsD[OF assms(2) m] assms(1) have "f w1 = f w" by simp
    with None m show ?thesis by (simp add: external_def)
  next
    case (Some e)
    with assms(1) show ?thesis by (simp add: external_def)
  qed
qed

lemma skip_fault_sel [simp]:
  "now_iso (skip_fault w) = now_iso w" "now_sql (skip_fault w) = now_sql w"
  by (simp_all add: skip_fault_def)

lemma keeps_external_committed:
  "(\<And>w. committed (snd (op w)) = committed w) \<Longrightarrow> keeps committed (external op)"
  by (rule keeps_external) (simp_all add: keeps_def)

lemma keeps_external_fs:
  "(\<And>w. fs (snd (op w)) = fs w) \<Longrightarrow> keeps fs (external op)"
  by (rule keeps_external) (simp_all add: keeps_def)

lemma keeps_external_pending:
  "(\<And>w. pending (snd (op w)) = pending w) \<Longrightarrow> keeps pending (external op)"
  by (rule keeps_external) (simp_all add: keeps_def)

text \<open>The committed store: only \<open>db_commit\<close> writes it.\<close>

lemma keeps_committed_log [intro!]:
  "keeps committed (logger_info m)" "keeps committed (logger_error m)"
  "keeps committed datetime_now_iso" "keeps committed datetime_now_sql"
  by (simp_all add: keeps_def logger_info_def logger_error_def datetime_now_iso_def
      datetime_now_sql_def)

lemma keeps_committed_dict_get [intro!]: "keeps committed (dict_get v k)"
  by (cases v) (simp_all add: keeps_def return_def raise_def)

lemma keeps_committed_fs_calls [intro!]:
  "keeps committed (path_exists p)" "keeps committed (mkdir p b)"
  "keeps committed (copy2 p q)" "keeps committed (copytree p q)"
  "keeps committed (rmtree p)" "keeps committed (json_dump_file p v)"
  "keeps committed (json_load_file p)"
  unfolding path_exists_def mkdir_def copy2_def copytree_def rmtree_def json_dump_file_def
    json_load_file_def
  by (rule keeps_external_committed,
      simp add: Let_def split: option.splits node.splits content.splits)+

lemma keeps_committed_db_calls [intro!]:
  "keeps committed (db_execute stmt ps)" "keeps committed db_rollback"
  unfolding db_execute_def db_rollback_def
  by (rule keeps_external_committed, simp split: prod.splits)+


lemma keeps_committed_copy_files [intro!]:
  "keeps committed (copy_files src_dir target_dir files copied)"
  by (induction files arbitrary: copied) (auto simp: Let_def)

lemma keeps_committed_copy_dirs [intro!]:
  "keeps committed (copy_dirs src_dir target_dir update dirs copied)"
  by (induction dirs arbitrary: copied) (auto simp: Let_def)

lemma keeps_committed_insert_modules [intro!]:
  "keeps committed (insert_modules user_id slug plugin_id current_time ms created)"
  by (induction ms arbitrary: created) (auto simp: Let_def)

lemma keeps_committed_missing_required [intro!]:
  "keeps committed (missing_required plugin_dir files missing)"
  by (induction files arbitrary: missing) auto

lemma keeps_committed_helpers:
  "keeps committed (check_existing_plugin mgr user_id)"
  "keeps committed (create_user_plugin_directory mgr user_id)"
  "keeps committed (copy_plugin_files mgr user_id target_dir update)"
  "keeps committed (create_database_records mgr user_id)"
  "keeps committed (delete_database_records mgr user_id plugin_id)"
  "keeps committed (validate_installation mgr user_id plugin_dir)"
  "keeps committed (check_modules_status mgr user_id plugin_id)"
  "keeps committed (cleanup_user_directory mgr plugin_dir)"
  unfolding check_existing_plugin_def create_user_plugin_directory_def copy_plugin_files_def
    create_database_records_def delete_database_records_def validate_installation_def
    check_modules_status_def cleanup_user_directory_def
  by (auto simp: Let_def split: option.splits)

text \<open>A \<^verbatim>\<open>try\<close> whose handler logs and returns a value never raises.\<close>

lemma try_except_returns:
  assumes "\<And>e w. \<exists>x w'. h e w = (Inr x, w')"
  shows "\<exists>x w'. try_except m h w = (Inr x, w')"
proof (cases "m w")
  case (Pair r w1)
  then show ?thesis using assms by (cases r) (auto simp: try_except_def)
qed

lemma helpers_return:
  "\<exists>x w'. check_existing_plugin mgr user_id w = (Inr x, w')"
  "\<exists>x w'. create_user_plugin_directory mgr user_id w = (Inr x, w')"
  "\<exists>x w'. copy_plugin_files mgr user_id target_dir update w = (Inr x, w')"
  "\<exists>x w'. create_database_records mgr user_id w = (Inr x, w')"
  "\<exists>x w'. delete_database_records mgr user_id plugin_id w = (Inr x, w')"
  "\<exists>x w'. validate_installation mgr user_id plugin_dir w = (Inr x, w')"
  "\<exists>x w'. check_modules_status mgr user_id plugin_id w = (Inr x, w')"
  "\<exists>x w'. cleanup_user_directory mgr plugin_dir w = (Inr x, w')"
  unfolding check_existing_plugin_def create_user_plugin_directory_def copy_plugin_files_def
    create_database_records_def delete_database_records_def validate_installation_def
    check_modules_status_def cleanup_user_directory_def
  by (rule try_except_returns, simp add: seq_def bind_def logger_error_def return_def)+


lemma created_directory:
  assumes "create_user_plugin_directory mgr user_id w = (Inr (Some d), w')"
  shows "d = user_plugin_dir mgr user_id"
  using assms
  by (auto simp: create_user_plugin_directory_def user_plugin_dir_def try_except_def seq_def
      bind_def return_def logger_info_def logger_error_def Let_def
      split: prod.splits sum.splits)

lemma user_plugin_dir_not_root [simp]: "user_plugin_dir mgr user_id \<noteq> []"
  by (simp add: user_plugin_dir_def)

lemma cleanup_post:
  assumes "d \<noteq> []" "cleanup_user_directory mgr d w = (r, w')"
  shows "r = Inr () \<and> pending w' = pending w \<and>
     (\<not> present (fs w') d
      \<or> (\<exists>m. last (logs w') = Error (''Error cleaning up plugin directory: '' @ m)))"
  using assms
  by (auto simp: cleanup_user_directory_def io_defs path_exists_run rmtree_run present_def
      split: option.splits if_splits)

lemma db_rollback_run:
  "next_fault w = None \<Longrightarrow>
     db_rollback w = (Inr (), (skip_fault w)\<lparr>pending := committed w\<rparr>)"
  by (simp add: db_rollback_def external_def)

lemmas run_simps = try_except_def seq_def bind_def return_def prod.case sum.case option.case
  if_True if_False simp_thms

text \<open>
  Claim C1, as amended. When an install fails at the copy, insert or validate step (and, at
  the validate step, the explicit rollback returns), \<open>install_plugin\<close> returns a failure,
  the committed store is what it was, so no row of the install persists (after a failed
  validation the session is rolled back as well), and the cleanup has run: the plugin
  directory is absent, unless the removal itself failed, which the cleanup logged and
  swallowed.
\<close>

theorem install_failure_compensates:
  assumes "failing_step mgr user_id w = Some (s, wk)"
      and "s = Validate_manifest \<longrightarrow> next_fault wk = None"
  shows "\<exists>res w'. install_plugin mgr user_id w = (Inr res, w')
          \<and> \<not> truthy (item res ''success'')
          \<and> committed w' = committed w
          \<and> (s = Validate_manifest \<longrightarrow> pending w' = committed w)
          \<and> (\<not> present (fs w') (user_plugin_dir mgr user_id)
              \<or> (\<exists>m. last (logs w') = Error (''Error cleaning up plugin directory: '' @ m)))"
proof -
  let ?d = "user_plugin_dir mgr user_id"
  define w0 where "w0 = snd (logger_info (''Installing NetworkEyes plugin for user '' @ user_id) w)"
  have l: "logger_info (''Installing NetworkEyes plugin for user '' @ user_id) w = (Inr (), w0)"
    by (simp add: w0_def logger_info_def)
  have c0: "committed w0 = committed w" by (simp add: w0_def logger_info_def)
  obtain chk w1 where chk: "check_existing_plugin mgr user_id w0 = (Inr chk, w1)"
    using helpers_return(1) by blast
  have c1: "committed w1 = committed w0" by (rule keepsD[OF keeps_committed_helpers(1) chk])
  obtain cr w2 where cr: "create_user_plugin_directory mgr user_id w1 = (Inr cr, w2)"
    using helpers_return(2) by blast
  have c2: "committed w2 = committed w1" by (rule keepsD[OF keeps_committed_helpers(2) cr])
  from assms(1) chk cr have ne: "\<not> truthy (item chk ''exists'')" and "cr \<noteq> None"
    by (auto simp: failing_step_def w0_def split: if_splits option.splits)
  then obtain d where d: "cr = Some d" by auto
  with cr have deq: "d = ?d" by (auto dest: created_directory)
  obtain c w3 where c: "copy_plugin_files mgr user_id ?d False w2 = (Inr c, w3)"
    using helpers_return(3) by blast
  have c3: "committed w3 = committed w2" by (rule keepsD[OF keeps_committed_helpers(3) c])
  obtain r w4 where r: "create_database_records mgr user_id w3 = (Inr r, w4)"
    using helpers_return(4) by blast
  have c4: "committed w4 = committed w3" by (rule keepsD[OF keeps_committed_helpers(4) r])
  obtain v w5 where v: "validate_installation mgr user_id ?d w4 = (Inr v, w5)"
    using helpers_return(6) by blast
  have c5: "committed w5 = committed w4" by (rule keepsD[OF keeps_committed_helpers(6) v])
  note start = l chk ne cr d deq
  from assms(1) start c r v
  consider (copy) "\<not> truthy (item c ''success'')" "s = Copy_files" "wk = w3"
    | (insert) "truthy (item c ''success'')" "\<not> truthy (item r ''success'')"
        "s = Insert_records" "wk = w4"
    | (validate) "truthy (item c ''success'')" "truthy (item r ''success'')"
        "\<not> truthy (item v ''valid'')" "s = Validate_manifest" "wk = w5"
    by (auto simp: failing_step_def w0_def[symmetric] split: if_splits)
  then show ?thesis
  proof cases
    case copy
    obtain u w6 where cl: "cleanup_user_directory mgr ?d w3 = (Inr u, w6)"
      using helpers_return(8) by blast
    have c6: "committed w6 = committed w3" by (rule keepsD[OF keeps_committed_helpers(8) cl])
    have "install_plugin mgr user_id w = (Inr c, w6)"
      unfolding install_plugin_def install_steps_def
      by (simp only: run_simps start c copy cl)
    with copy c0 c1 c2 c3 c6 cleanup_post[OF _ cl] show ?thesis by simp
  next
    case insert
    obtain u w6 where cl: "cleanup_user_directory mgr ?d w4 = (Inr u, w6)"
      using helpers_return(8) by blast
    have c6: "committed w6 = committed w4" by (rule keepsD[OF keeps_committed_helpers(8) cl])
    have "install_plugin mgr user_id w = (Inr r, w6)"
      unfolding install_plugin_def install_steps_def
      by (simp only: run_simps start c r insert cl)
    with insert c0 c1 c2 c3 c4 c6 cleanup_post[OF _ cl] show ?thesis by simp
  next
    case validate
    with assms(2) have "next_fault w5 = None" by simp
    then have rb: "db_rollback w5 = (Inr (), (skip_fault w5)\<lparr>pending := committed w5\<rparr>)"
      by (rule db_rollback_run)
    let ?w6 = "(skip_fault w5)\<lparr>pending := committed w5\<rparr>"
    obtain u w7 where cl: "cleanup_user_directory mgr ?d ?w6 = (Inr u, w7)"
      using helpers_return(8) by blast
    have c7: "committed w7 = committed ?w6" by (rule keepsD[OF keeps_committed_helpers(8) cl])
    have "install_plugin mgr user_id w =
        (Inr (PDict [(''success'', PBool False), (''error'', item v ''error'')]), w7)"
      unfolding install_plugin_def install_steps_def
      by (simp only: run_simps start c r v validate rb cl)
    with validate c0 c1 c2 c3 c4 c5 c7 cleanup_post[OF _ cl] show ?thesis by simp
  qed
qed


text \<open>
  Claim C1 as stated fails: on the fresh world, let the copy of \<^verbatim>\<open>package.json\<close> fail and
  then the removal of the directory fail too. The install fails at the copy step, the
  cleanup swallows the second error, and the plugin directory of the user is still there.
\<close>

theorem install_failure_leaves_directory:
  "map_option fst (failing_step mgr0 ''u1'' copy_and_cleanup_fail0) = Some Copy_files
   \<and> fst (install_plugin mgr0 ''u1'' copy_and_cleanup_fail0) =
        Inr (PDict [(''success'', PBool False), (''error'', PStr ''No space left on device'')])
   \<and> fs (snd (install_plugin mgr0 ''u1'' copy_and_cleanup_fail0)) (user_plugin_dir mgr0 ''u1'')
        = Some Dir"
  by code_simp

text \<open>
  The amended property on three runs: the copy fails; the insert of the module row
  fails after the plugin row went in; the validation misses \<^verbatim>\<open>package.json\<close>.
\<close>

theorem install_failure_compensates_witness:
  "map_option fst (failing_step mgr0 ''u1'' copy_fails0) = Some Copy_files
   \<and> map_option fst (failing_step mgr0 ''u1'' insert_fails0) = Some Insert_records
   \<and> map_option fst (failing_step mgr0 ''u1'' validate_fails0) = Some Validate_manifest
   \<and> next_fault (snd (the (failing_step mgr0 ''u1'' validate_fails0))) = None
   \<and> (\<exists>res w'. install_plugin mgr0 ''u1'' copy_fails0 = (Inr res, w')
          \<and> \<not> truthy (item res ''success'')
          \<and> committed w' = committed copy_fails0
          \<and> (\<not> present (fs w') (user_plugin_dir mgr0 ''u1'')
              \<or> (\<exists>m. last (logs w') = Error (''Error cleaning up plugin directory: '' @ m))))
   \<and> (\<exists>res w'. install_plugin mgr0 ''u1'' insert_fails0 = (Inr res, w')
          \<and> \<not> truthy (item res ''success'')
          \<and> committed w' = committed insert_fails0
          \<and> (\<not> present (fs w') (user_plugin_dir mgr0 ''u1'')
              \<or> (\<exists>m. last (logs w') = Error (''Error cleaning up plugin directory: '' @ m))))
   \<and> (\<exists>res w'. install_plugin mgr0 ''u1'' validate_fails0 = (Inr res, w')
          \<and> \<not> truthy (item res ''success'')
          \<and> committed w' = committed validate_fails0
          \<and> pending w' = committed validate_fails0
          \<and> (\<not> present (fs w') (user_plugin_dir mgr0 ''u1'')
              \<or> (\<exists>m. last (logs w') = Error (''Error cleaning up plugin directory: '' @ m))))"
proof -
  have a: "map_option fst (failing_step mgr0 ''u1'' copy_fails0) = Some Copy_files"
    by code_simp
  have b: "map_option fst (failing_step mgr0 ''u1'' insert_fails0) = Some Insert_records"
    by code_simp
  have c: "map_option fst (failing_step mgr0 ''u1'' validate_fails0) = Some Validate_manifest"
    by code_simp
  have n: "next_fault (snd (the (failing_step mgr0 ''u1'' validate_fails0))) = None"
    by code_simp
  from a have a': "failing_step mgr0 ''u1'' copy_fails0
      = Some (Copy_files, snd (the (failing_step mgr0 ''u1'' copy_fails0)))" by auto
  from b have b': "failing_step mgr0 ''u1'' insert_fails0
      = Some (Insert_records, snd (the (failing_step mgr0 ''u1'' insert_fails0)))" by auto
  from c have c': "failing_step mgr0 ''u1'' validate_fails0
      = Some (Validate_manifest, snd (the (failing_step mgr0 ''u1'' validate_fails0)))" by auto
  from install_failure_compensates[OF a'] install_failure_compensates[OF b']
    install_failure_compensates[OF c'] n a b c
  show ?thesis by simp
qed

section \<open>The status check\<close>


lemma keeps_fs_log [intro!]:
  "keeps fs (logger_info m)" "keeps fs (logger_error m)"
  "keeps pending (logger_info m)" "keeps pending (logger_error m)"
  by (simp_all add: keeps_def logger_info_def logger_error_def)

lemma keeps_select [intro!]:
  "keeps fs (db_execute stmt ps)"
  "keeps pending (db_execute Select_plugin ps)"
  "keeps pending (db_execute Select_modules ps)"
  "keeps fs (path_exists p)" "keeps pending (path_exists p)"
  unfolding db_execute_def path_exists_def
  by ((rule keeps_external_fs | rule keeps_external_pending), simp split: prod.splits)+

lemma keeps_status_helpers:
  "keeps fs (check_existing_plugin mgr user_id)"
  "keeps pending (check_existing_plugin mgr user_id)"
  "keeps fs (check_modules_status mgr user_id plugin_id)"
  "keeps pending (check_modules_status mgr user_id plugin_id)"
  unfolding check_existing_plugin_def check_modules_status_def
  by (auto simp: Let_def split: option.splits)

lemma keeps_status:
  "keeps fs (get_plugin_status mgr user_id)"
  "keeps pending (get_plugin_status mgr user_id)"
  "keeps committed (get_plugin_status mgr user_id)"
  unfolding get_plugin_status_def
  by (auto simp: Let_def keeps_status_helpers keeps_committed_helpers)

lemma status_returns: "\<exists>st w'. get_plugin_status mgr user_id w = (Inr st, w')"
  unfolding get_plugin_status_def
  by (rule try_except_returns) (simp add: seq_def bind_def logger_error_def return_def)

text \<open>
  Claim C9. For an installed user whose existence query and directory probe return (the
  status check does not reach its own \<^verbatim>\<open>except\<close> block), the status is \<open>healthy\<close>,
  \<open>files_missing\<close> or \<open>modules_corrupted\<close>, whether the module query returns or raises: the
  branch \<open>unknown\<close> is never taken.
\<close>

theorem status_never_unknown:
  assumes "calls_succeed 2 w" and "plugin_rows user_id (pending w) = r # rs"
  shows "\<exists>st w'. get_plugin_status mgr user_id w = (Inr st, w') \<and>
     item st ''status'' \<in> {PStr ''healthy'', PStr ''files_missing'', PStr ''modules_corrupted''}"
proof -
  from assms(1) have nf: "next_fault w = None" "next_fault (skip_fault w) = None"
    by (simp_all add: numeral_2_eq_2 calls_succeed_Suc)
  obtain ms w3 where ms: "check_modules_status mgr user_id (lookup r ''id'') (skip_fault (skip_fault w))
       = (Inr ms, w3)"
    using helpers_return(7) by blast
  show ?thesis
    using nf ms
    by (simp add: get_plugin_status_def bind_def return_def try_except_def
        check_found[OF nf(1) assms(2)] path_exists_run user_plugin_dir_def Let_def)
qed

text \<open>
  Claim C5, as amended. \<open>get_plugin_status\<close> always returns a result, never an exception,
  and leaves the file system and both views of the store as they were. An error of the
  directory probe, the one call the status check makes outside its helpers, is reported as
  status \<open>error\<close> with the error text. An error of the existence query is swallowed by the
  existence check and the status is \<open>not_installed\<close>; an error of the module query is
  swallowed by the module check, which reports the modules as not loaded, so the status
  is \<open>modules_corrupted\<close> or \<open>files_missing\<close>.
\<close>

theorem status_reports_without_effect:
  "\<exists>st w'. get_plugin_status mgr user_id w = (Inr st, w')
      \<and> fs w' = fs w \<and> pending w' = pending w \<and> committed w' = committed w
      \<and> (\<forall>e. next_fault w = Some e \<longrightarrow>
            st = PDict [(''exists'', PBool False), (''status'', PStr ''not_installed'')])
      \<and> (\<forall>e r rs. next_fault w = None \<and> plugin_rows user_id (pending w) = r # rs
              \<and> next_fault (skip_fault w) = Some e \<longrightarrow>
            st = PDict [(''exists'', PBool False), (''status'', PStr ''error''),
                        (''error'', PStr (str_exn e))])
      \<and> (\<forall>e r rs. calls_succeed 2 w \<and> plugin_rows user_id (pending w) = r # rs
              \<and> next_fault (skip_fault (skip_fault w)) = Some e \<longrightarrow>
            item st ''status'' = PStr (if present (fs w) (user_plugin_dir mgr user_id)
                                       then ''modules_corrupted'' else ''files_missing''))"
proof -
  obtain st w' where run: "get_plugin_status mgr user_id w = (Inr st, w')"
    using status_returns by blast
  have frame: "fs w' = fs w" "pending w' = pending w" "committed w' = committed w"
    using keepsD[OF keeps_status(1) run] keepsD[OF keeps_status(2) run]
      keepsD[OF keeps_status(3) run] by simp_all
  have a: "st = PDict [(''exists'', PBool False), (''status'', PStr ''not_installed'')]"
    if "next_fault w = Some e" for e
    using run check_raised[OF that, of mgr user_id]
    by (simp add: get_plugin_status_def bind_def return_def try_except_def)
  have b: "st = PDict [(''exists'', PBool False), (''status'', PStr ''error''),
                        (''error'', PStr (str_exn e))]"
    if "next_fault w = None" "plugin_rows user_id (pending w) = r # rs"
       "next_fault (skip_fault w) = Some e" for e r rs
    using run that(3) check_found[OF that(1,2), of mgr]
    by (simp add: get_plugin_status_def bind_def return_def try_except_def seq_def
        logger_error_def path_exists_run Let_def)
  have c: "item st ''status'' = PStr (if present (fs w) (user_plugin_dir mgr user_id)
                                       then ''modules_corrupted'' else ''files_missing'')"
    if "calls_succeed 2 w" "plugin_rows user_id (pending w) = r # rs"
       "next_fault (skip_fault (skip_fault w)) = Some e" for e r rs
  proof -
    from that(1) have nf: "next_fault w = None" "next_fault (skip_fault w) = None"
      by (simp_all add: numeral_2_eq_2 calls_succeed_Suc)
    show ?thesis
      using run nf check_found[OF nf(1) that(2), of mgr]
        modules_status_raised[OF that(3), of mgr user_id "lookup r ''id''"]
      by (auto simp: get_plugin_status_def bind_def return_def try_except_def
          path_exists_run user_plugin_dir_def Let_def)
  qed
  from run frame a b c show ?thesis by blast
qed

text \<open>The installed user when the module query fails.\<close>

theorem status_never_unknown_witness:
  "calls_succeed 2 module_query_fails0
   \<and> plugin_rows ''u1'' (pending module_query_fails0) = [plugin_row0]
   \<and> (\<exists>st w'. get_plugin_status mgr0 ''u1'' module_query_fails0 = (Inr st, w') \<and>
        item st ''status'' \<in>
          {PStr ''healthy'', PStr ''files_missing'', PStr ''modules_corrupted''})"
proof -
  have h1: "calls_succeed 2 module_query_fails0"
    by (simp add: calls_succeed_def module_query_fails0_def)
  have h2: "plugin_rows ''u1'' (pending module_query_fails0) = [plugin_row0]"
    by (simp add: module_query_fails0_def)
  from status_never_unknown[OF h1 h2, of mgr0] h1 h2 show ?thesis by simp
qed

text \<open>
  Claim C5 as stated fails: for the installed user, let the existence query raise. The
  status check returns \<open>not_installed\<close>, not \<open>error\<close>, and the result carries no error text.
\<close>

theorem status_hides_query_error:
  "next_fault query_fails0 = Some connection_lost
   \<and> plugin_rows ''u1'' (pending query_fails0) = [plugin_row0]
   \<and> fst (get_plugin_status mgr0 ''u1'' query_fails0) =
        Inr (PDict [(''exists'', PBool False), (''status'', PStr ''not_installed'')])"
  by code_simp

text \<open>The three kinds of error during a status check of the installed user.\<close>

theorem status_reports_without_effect_witness:
  "next_fault query_fails0 = Some connection_lost
   \<and> (\<exists>w'. get_plugin_status mgr0 ''u1'' query_fails0 =
          (Inr (PDict [(''exists'', PBool False), (''status'', PStr ''not_installed'')]), w')
        \<and> fs w' = fs query_fails0 \<and> pending w' = pending query_fails0
        \<and> committed w' = committed query_fails0)
   \<and> next_fault probe_fails0 = None
   \<and> plugin_rows ''u1'' (pending probe_fails0) = [plugin_row0]
   \<and> next_fault (skip_fault probe_fails0) = Some permission_denied
   \<and> (\<exists>w'. get_plugin_status mgr0 ''u1'' probe_fails0 =
          (Inr (PDict [(''exists'', PBool False), (''status'', PStr ''error''),
                       (''error'', PStr ''Permission denied'')]), w')
        \<and> fs w' = fs probe_fails0 \<and> pending w' = pending probe_fails0
        \<and> committed w' = committed probe_fails0)
   \<and> calls_succeed 2 module_query_fails0
   \<and> plugin_rows ''u1'' (pending module_query_fails0) = [plugin_row0]
   \<and> next_fault (skip_fault (skip_fault module_query_fails0)) = Some connection_lost
   \<and> (\<exists>st w'. get_plugin_status mgr0 ''u1'' module_query_fails0 = (Inr st, w')
        \<and> item st ''status'' = PStr ''modules_corrupted'')"
proof -
  have a: "next_fault query_fails0 = Some connection_lost"
    by (simp add: query_fails0_def)
  have b: "next_fault probe_fails0 = None"
      "plugin_rows ''u1'' (pending probe_fails0) = [plugin_row0]"
      "next_fault (skip_fault probe_fails0) = Some permission_denied"
    by (simp_all add: probe_fails0_def next_fault_def)
  have c: "calls_succeed 2 module_query_fails0"
      "plugin_rows ''u1'' (pending module_query_fails0) = [plugin_row0]"
      "next_fault (skip_fault (skip_fault module_query_fails0)) = Some connection_lost"
    by (simp_all add: module_query_fails0_def next_fault_def calls_succeed_def)
  have d: "present (fs module_query_fails0) (user_plugin_dir mgr0 ''u1'')"
    by (simp add: module_query_fails0_def present_def dir0 installed_tree_def)
  have e: "str_exn permission_denied = ''Permission denied''"
    by (simp add: permission_denied_def)
  from status_reports_without_effect[of mgr0 "''u1''" query_fails0] a
  have 1: "\<exists>w'. get_plugin_status mgr0 ''u1'' query_fails0 =
          (Inr (PDict [(''exists'', PBool False), (''status'', PStr ''not_installed'')]), w')
        \<and> fs w' = fs query_fails0 \<and> pending w' = pending query_fails0
        \<and> committed w' = committed query_fails0"
    by auto
  from status_reports_without_effect[of mgr0 "''u1''" probe_fails0] b e
  have 2: "\<exists>w'. get_plugin_status mgr0 ''u1'' probe_fails0 =
          (Inr (PDict [(''exists'', PBool False), (''status'', PStr ''error''),
                       (''error'', PStr ''Permission denied'')]), w')
        \<and> fs w' = fs probe_fails0 \<and> pending w' = pending probe_fails0
        \<and> committed w' = committed probe_fails0"
    by fastforce
  from status_reports_without_effect[of mgr0 "''u1''" module_query_fails0] c d
  have 3: "\<exists>st w'. get_plugin_status mgr0 ''u1'' module_query_fails0 = (Inr st, w')
        \<and> item st ''status'' = PStr ''modules_corrupted''"
    by fastforce
  from a b c 1 2 3 show ?thesis by blast
qed

section \<open>Deleting\<close>

text \<open>With a row found, \<open>delete_plugin\<close> runs \<open>delete_steps\<close> on the id of that row.\<close>

lemma delete_found:
  assumes "next_fault w = None" "plugin_rows user_id (pending w) = r # rs"
  shows "delete_plugin mgr user_id w =
           try_except (delete_steps mgr user_id (lookup r ''id'')) (delete_failed user_id)
             (skip_fault (w\<lparr>logs := logs w @ [Info (''Deleting NetworkEyes plugin for user '' @ user_id)]\<rparr>))"
proof -
  let ?w1 = "w\<lparr>logs := logs w @ [Info (''Deleting NetworkEyes plugin for user '' @ user_id)]\<rparr>"
  have "next_fault ?w1 = None" "plugin_rows user_id (pending ?w1) = r # rs" using assms by simp_all
  from check_found[OF this, of mgr]
  show ?thesis
    by (simp add: delete_plugin_def io_defs skip_fault_def)
qed

lemma filter_none_owned: "filter P xs = [] \<Longrightarrow> filter (\<lambda>x. \<not> P x) xs = xs"
  by (induction xs) (auto split: if_splits)

text \<open>
  The steps of a delete after the existence check, for any plugin id: when the two
  \<^verbatim>\<open>DELETE\<close> statements return and the one on the plugin table finds no row of that id and
  user, the failure is reported, nothing is committed and the file system is untouched,
  and the module rows the first statement deleted stay deleted in the session.
\<close>

lemma delete_steps_zero_rows:
  assumes "calls_succeed 2 w" and "owned_plugin_rows user_id plugin_id (pending w) = []"
  shows "\<exists>w'. delete_database_records mgr user_id plugin_id w =
           (Inr (PDict [(''success'', PBool False),
                        (''error'', PStr ''Plugin not found or not owned by user'')]), w')
        \<and> try_except (delete_steps mgr user_id plugin_id) (delete_failed user_id) w =
           (Inr (PDict [(''success'', PBool False),
                        (''error'', PStr ''Plugin not found or not owned by user'')]), w')
        \<and> fs w' = fs w \<and> committed w' = committed w \<and> logs w' = logs w
        \<and> plugin_table (pending w') = plugin_table (pending w)
        \<and> module_table (pending w') =
            filter (\<lambda>r. \<not> (sql_eq (lookup r ''plugin_id'') plugin_id
                            \<and> sql_eq (lookup r ''user_id'') (PStr user_id)))
              (module_table (pending w))"
proof -
  from assms(1) have nf: "next_fault w = None" "next_fault (skip_fault w) = None"
    by (simp_all add: numeral_2_eq_2 calls_succeed_Suc)
  from assms(2) have none: "filter (plugin_owned [(''plugin_id'', plugin_id),
      (''user_id'', PStr user_id)]) (plugin_table (pending w)) = []"
    by (simp add: owned_plugin_rows_def plugin_owned_params)
  have rec: "\<exists>w'. delete_database_records mgr user_id plugin_id w =
           (Inr (PDict [(''success'', PBool False),
                        (''error'', PStr ''Plugin not found or not owned by user'')]), w')
        \<and> fs w' = fs w \<and> committed w' = committed w \<and> logs w' = logs w
        \<and> plugin_table (pending w') = plugin_table (pending w)
        \<and> module_table (pending w') =
            filter (\<lambda>r. \<not> (sql_eq (lookup r ''plugin_id'') plugin_id
                            \<and> sql_eq (lookup r ''user_id'') (PStr user_id)))
              (module_table (pending w))"
    using nf none
    by (simp add: delete_database_records_def io_defs db_execute_def external_def
        filter_none_owned module_matches_params Let_def)
  then obtain w' where w': "delete_database_records mgr user_id plugin_id w =
           (Inr (PDict [(''success'', PBool False),
                        (''error'', PStr ''Plugin not found or not owned by user'')]), w')"
     and rest: "fs w' = fs w" "committed w' = committed w" "logs w' = logs w"
        "plugin_table (pending w') = plugin_table (pending w)"
        "module_table (pending w') =
            filter (\<lambda>r. \<not> (sql_eq (lookup r ''plugin_id'') plugin_id
                            \<and> sql_eq (lookup r ''user_id'') (PStr user_id)))
              (module_table (pending w))"
    by blast
  have "try_except (delete_steps mgr user_id plugin_id) (delete_failed user_id) w =
           (Inr (PDict [(''success'', PBool False),
                        (''error'', PStr ''Plugin not found or not owned by user'')]), w')"
    using w' by (simp add: delete_steps_def try_except_def bind_def return_def)
  with w' rest show ?thesis by blast
qed

text \<open>
  Claim C3. The code does not do what the claim says. \<open>delete_plugin\<close> returns the failure
  of the record deletion at lines 158-159 with neither commit nor rollback, where its own
  \<^verbatim>\<open>except\<close> block and the validation path of \<open>install_plugin\<close> roll back.

  A delete for \<^verbatim>\<open>u1\<close> on the installed world runs \<open>delete_steps\<close> with the id of the row the
  check read, in the world \<open>checked0\<close>. When a second connection has deleted that plugin
  row in between (\<open>raced0\<close>), the module row is deleted, the \<^verbatim>\<open>DELETE\<close> on the plugin table
  affects zero rows, "not found or not owned" is returned and the directory stays; the
  deletion of the module row is not rolled back: the session no longer has the row, the
  committed store still has it. On a single session the same return leaves the same
  state behind when the \<^verbatim>\<open>DELETE\<close> on the plugin table raises.
\<close>

theorem delete_failure_not_rolled_back:
  "delete_plugin mgr0 ''u1'' installed0 =
     try_except (delete_steps mgr0 ''u1'' (PStr ''u1_BrainDriveNetwork'')) (delete_failed ''u1'')
       checked0
   \<and> module_rows ''u1'' (PStr ''u1_BrainDriveNetwork'') (pending raced0) = [module_row0]
   \<and> owned_plugin_rows ''u1'' (PStr ''u1_BrainDriveNetwork'') (pending raced0) = []
   \<and> pending raced0 = committed raced0
   \<and> fst (try_except (delete_steps mgr0 ''u1'' (PStr ''u1_BrainDriveNetwork''))
             (delete_failed ''u1'') raced0) =
        Inr (PDict [(''success'', PBool False),
                    (''error'', PStr ''Plugin not found or not owned by user'')])
   \<and> fs (snd (try_except (delete_steps mgr0 ''u1'' (PStr ''u1_BrainDriveNetwork''))
                 (delete_failed ''u1'') raced0)) (user_plugin_dir mgr0 ''u1'') = Some Dir
   \<and> module_table (pending (snd (try_except
          (delete_steps mgr0 ''u1'' (PStr ''u1_BrainDriveNetwork''))
          (delete_failed ''u1'') raced0))) = []
   \<and> module_table (committed (snd (try_except
          (delete_steps mgr0 ''u1'' (PStr ''u1_BrainDriveNetwork''))
          (delete_failed ''u1'') raced0))) = [module_row0]
   \<and> fst (delete_plugin mgr0 ''u1'' plugin_delete_raises0) =
        Inr (PDict [(''success'', PBool False), (''error'', PStr ''connection lost'')])
   \<and> module_table (pending (snd (delete_plugin mgr0 ''u1'' plugin_delete_raises0))) = []
   \<and> module_table (committed (snd (delete_plugin mgr0 ''u1'' plugin_delete_raises0)))
        = [module_row0]"
proof -
  have f: "next_fault installed0 = None" "plugin_rows ''u1'' (pending installed0) = [plugin_row0]"
    by (simp_all add: next_fault_def)
  have i: "lookup plugin_row0 ''id'' = PStr ''u1_BrainDriveNetwork''"
    by (simp add: plugin_row0_def)
  have 1: "delete_plugin mgr0 ''u1'' installed0 =
     try_except (delete_steps mgr0 ''u1'' (PStr ''u1_BrainDriveNetwork'')) (delete_failed ''u1'')
       checked0"
    unfolding checked0_def using delete_found[OF f, of mgr0] by (simp add: i)
  have 2: "module_rows ''u1'' (PStr ''u1_BrainDriveNetwork'') (pending raced0) = [module_row0]"
    "owned_plugin_rows ''u1'' (PStr ''u1_BrainDriveNetwork'') (pending raced0) = []"
    "pending raced0 = committed raced0"
    by (simp_all add: raced0_def module_rows_def owned_plugin_rows_def installed_db_def
        module_row0_def sql_eq_def)
  have 3: "fst (try_except (delete_steps mgr0 ''u1'' (PStr ''u1_BrainDriveNetwork''))
             (delete_failed ''u1'') raced0) =
        Inr (PDict [(''success'', PBool False),
                    (''error'', PStr ''Plugin not found or not owned by user'')])"
    "fs (snd (try_except (delete_steps mgr0 ''u1'' (PStr ''u1_BrainDriveNetwork''))
                 (delete_failed ''u1'') raced0)) (user_plugin_dir mgr0 ''u1'') = Some Dir"
    "module_table (pending (snd (try_except
          (delete_steps mgr0 ''u1'' (PStr ''u1_BrainDriveNetwork''))
          (delete_failed ''u1'') raced0))) = []"
    "module_table (committed (snd (try_except
          (delete_steps mgr0 ''u1'' (PStr ''u1_BrainDriveNetwork''))
          (delete_failed ''u1'') raced0))) = [module_row0]"
    by code_simp+
  have 4: "fst (delete_plugin mgr0 ''u1'' plugin_delete_raises0) =
        Inr (PDict [(''success'', PBool False), (''error'', PStr ''connection lost'')])"
    "module_table (pending (snd (delete_plugin mgr0 ''u1'' plugin_delete_raises0))) = []"
    "module_table (committed (snd (delete_plugin mgr0 ''u1'' plugin_delete_raises0)))
        = [module_row0]"
    by code_simp+
  from 1 2 3 4 show ?thesis by blast
qed

section \<open>The manifest\<close>


lemma bind_InrE:
  assumes "bind m k w = (Inr y, w')"
  obtains x w1 where "m w = (Inr x, w1)" "k x w1 = (Inr y, w')"
  using assms by (auto simp: bind_def split: prod.splits sum.splits)

lemma seq_InrE:
  assumes "seq m n w = (Inr y, w')"
  obtains x w1 where "m w = (Inr x, w1)" "n w1 = (Inr y, w')"
  using assms by (auto simp: seq_def bind_def split: prod.splits sum.splits)

lemma json_dump_file_written:
  assumes "json_dump_file p v w = (Inr x, w')"
  shows "fs w' p = Some (File (Json_text v))"
  using assms
  by (auto simp: json_dump_file_def external_def split: option.splits if_splits)

lemma try_except_InrE:
  assumes "try_except m h w = (Inr c, w')"
  obtains "m w = (Inr c, w')" | e w1 where "m w = (Inl e, w1)" "h e w1 = (Inr c, w')"
  using assms by (auto simp: try_except_def split: prod.splits sum.splits)

lemma logger_info_InrE:
  assumes "logger_info m w = (Inr x, w')"
  obtains "fs w' = fs w"
  using assms by (auto simp: logger_info_def)

lemma return_InrE:
  assumes "return x w = (Inr y, w')"
  obtains "y = x" "w' = w"
  using assms by (auto simp: return_def)

lemma copy_success_manifest:
  assumes "copy_plugin_files mgr user_id target_dir update w = (Inr c, w')"
      and "truthy (item c ''success'')"
  shows "\<exists>t. fs w' (target_dir @ [''plugin_metadata.json''])
            = Some (File (Json_text (manifest user_id t)))"
  using assms(1)[unfolded copy_plugin_files_def Let_def]
proof (cases rule: try_except_InrE)
  case 1
  then show ?thesis
    by (elim bind_InrE seq_InrE logger_info_InrE return_InrE)
       (auto dest: json_dump_file_written simp del: copy_files.simps copy_dirs.simps)
next
  case (2 e w1)
  from 2(2) assms(2) show ?thesis
    by (auto simp: seq_def bind_def logger_error_def return_def)
qed

lemma missing_required_none:
  assumes "calls_succeed 2 w" "present (fs w) (d @ [a])" "present (fs w) (d @ [b])"
  shows "missing_required d [a, b] [] w = (Inr [], skip_fault (skip_fault w))"
proof -
  from assms(1) have nf: "next_fault w = None" "next_fault (skip_fault w) = None"
    by (simp_all add: numeral_2_eq_2 calls_succeed_Suc)
  with assms(2,3) show ?thesis
    by (simp add: bind_def return_def path_exists_run)
qed

lemma json_load_file_run:
  "next_fault w = None \<Longrightarrow> fs w p = Some (File (Json_text v)) \<Longrightarrow>
     json_load_file p w = (Inr v, skip_fault w)"
  by (simp add: json_load_file_def external_def)

lemma bind_apply:
  "bind m k w = (case m w of (Inl e, w') \<Rightarrow> (Inl e, w') | (Inr x, w') \<Rightarrow> k x w')"
  by (simp add: bind_def)

lemma try_except_apply:
  "try_except m h w = (case m w of (Inl e, w') \<Rightarrow> h e w' | (Inr x, w') \<Rightarrow> (Inr x, w'))"
  by (simp add: try_except_def)

lemma try_except_only_apply:
  "try_except_only cs m h w = (case m w of
        (Inl e, w') \<Rightarrow> if class_of e \<in> set cs then h e w' else (Inl e, w')
      | (Inr x, w') \<Rightarrow> (Inr x, w'))"
  by (simp add: try_except_only_def)

lemma return_apply: "return x w = (Inr x, w)"
  by (simp add: return_def)

lemma validate_own_manifest:
  assumes "calls_succeed 3 w"
      and "present (fs w) (d @ [''package.json''])"
      and "fs w (d @ [''plugin_metadata.json'']) = Some (File (Json_text (manifest user_id t)))"
  shows "fst (validate_installation mgr user_id d w) = Inr (PDict [(''valid'', PBool True)])"
proof -
  from assms(1) have two: "calls_succeed 2 w"
     and nf: "next_fault (skip_fault (skip_fault w)) = None"
    by (simp_all add: numeral_3_eq_3 numeral_2_eq_2 calls_succeed_Suc)
  from assms(3) have p: "present (fs w) (d @ [''plugin_metadata.json''])"
    by (simp add: present_def)
  from assms(3) have f: "fs (skip_fault (skip_fault w)) (d @ [''plugin_metadata.json''])
      = Some (File (Json_text (manifest user_id t)))" by simp
  have g: "dict_get (manifest user_id t) ''installed_for_user'' = return (PStr user_id)"
    by (simp add: manifest_def)
  show ?thesis
    unfolding validate_installation_def Let_def
    by (simp add: try_except_apply try_except_only_apply bind_apply return_apply g
        missing_required_none[OF two assms(2) p] json_load_file_run[OF nf f]
        del: missing_required.simps)
qed

text \<open>
  Claim C8. When \<open>copy_plugin_files\<close> succeeds for a user, the file
  \<^verbatim>\<open>plugin_metadata.json\<close> of the target directory holds a manifest whose
  \<open>installed_for_user\<close> is that user and whose \<open>module_data\<close> is a list as long as the
  static module list; reading the file back yields that manifest; and the validation of
  the install, run on that file system with its three file-system calls returning and
  \<^verbatim>\<open>package.json\<close> in place, passes the user-id check and answers \<open>valid\<close>.
\<close>

theorem manifest_round_trip:
  assumes "copy_plugin_files mgr user_id target_dir update w = (Inr c, w')"
      and "truthy (item c ''success'')"
  shows "\<exists>metadata.
           fs w' (target_dir @ [''plugin_metadata.json'']) = Some (File (Json_text metadata))
         \<and> item metadata ''installed_for_user'' = PStr user_id
         \<and> (\<exists>ms. item metadata ''module_data'' = PList ms \<and> length ms = length MODULE_DATA)
         \<and> (\<forall>w2. fs w2 = fs w' \<and> next_fault w2 = None \<longrightarrow>
               fst (json_load_file (target_dir @ [''plugin_metadata.json'']) w2) = Inr metadata)
         \<and> (\<forall>w2. fs w2 = fs w' \<and> calls_succeed 3 w2
                 \<and> present (fs w') (target_dir @ [''package.json'']) \<longrightarrow>
               fst (validate_installation mgr user_id target_dir w2)
                 = Inr (PDict [(''valid'', PBool True)]))"
proof -
  from copy_success_manifest[OF assms] obtain t where
    t: "fs w' (target_dir @ [''plugin_metadata.json''])
            = Some (File (Json_text (manifest user_id t)))" by blast
  have 1: "item (manifest user_id t) ''installed_for_user'' = PStr user_id"
    by (simp add: manifest_def)
  have 2: "\<exists>ms. item (manifest user_id t) ''module_data'' = PList ms
               \<and> length ms = length MODULE_DATA"
    by (simp add: manifest_def)
  have 3: "fst (json_load_file (target_dir @ [''plugin_metadata.json'']) w2)
             = Inr (manifest user_id t)"
    if "fs w2 = fs w'" "next_fault w2 = None" for w2
    using that t by (simp add: json_load_file_run)
  have 4: "fst (validate_installation mgr user_id target_dir w2)
                 = Inr (PDict [(''valid'', PBool True)])"
    if "fs w2 = fs w'" "calls_succeed 3 w2" "present (fs w') (target_dir @ [''package.json''])"
    for w2
    using that t by (intro validate_own_manifest[where t = t]) simp_all
  from t 1 2 3 4 show ?thesis by blast
qed

text \<open>The copy of the install of \<^verbatim>\<open>u1\<close> on the fresh world, read back and validated.\<close>

theorem manifest_round_trip_witness:
  "fst (copy_plugin_files mgr0 ''u1'' (user_plugin_dir mgr0 ''u1'') False directory_made0) =
     Inr (PDict [(''success'', PBool True),
                 (''copied_files'', PList [PStr ''package.json'', PStr ''dist/'',
                                           PStr ''plugin_metadata.json''])])
   \<and> (\<exists>metadata.
         fs (snd (copy_plugin_files mgr0 ''u1'' (user_plugin_dir mgr0 ''u1'') False directory_made0))
            (user_plugin_dir mgr0 ''u1'' @ [''plugin_metadata.json''])
           = Some (File (Json_text metadata))
       \<and> item metadata ''installed_for_user'' = PStr ''u1''
       \<and> (\<exists>ms. item metadata ''module_data'' = PList ms \<and> length ms = length MODULE_DATA)
       \<and> fst (json_load_file (user_plugin_dir mgr0 ''u1'' @ [''plugin_metadata.json''])
               (snd (copy_plugin_files mgr0 ''u1'' (user_plugin_dir mgr0 ''u1'') False
                       directory_made0))) = Inr metadata
       \<and> fst (validate_installation mgr0 ''u1'' (user_plugin_dir mgr0 ''u1'')
               (snd (copy_plugin_files mgr0 ''u1'' (user_plugin_dir mgr0 ''u1'') False
                       directory_made0))) = Inr (PDict [(''valid'', PBool True)]))"
proof -
  let ?d = "user_plugin_dir mgr0 ''u1''"
  let ?run = "copy_plugin_files mgr0 ''u1'' ?d False directory_made0"
  let ?c = "PDict [(''success'', PBool True),
                 (''copied_files'', PList [PStr ''package.json'', PStr ''dist/'',
                                           PStr ''plugin_metadata.json''])]"
  have r: "fst ?run = Inr ?c" by code_simp
  then have h1: "?run = (Inr ?c, snd ?run)" by (simp add: prod_eq_iff)
  have h2: "truthy (item ?c ''success'')" by simp
  have n: "next_fault (snd ?run) = None" "calls_succeed 3 (snd ?run)"
      "present (fs (snd ?run)) (?d @ [''package.json''])"
    by code_simp+
  from manifest_round_trip[OF h1 h2] n r show ?thesis by blast
qed


end
